theory Spec2Isabelle
  imports Main
begin

section \<open>JavaScript values shared by the three modules\<close>

text \<open>
  An error object as the code reads it: \<open>new Error(message)\<close>, with the optional
  \<open>friendlyText\<close> property that \<open>startExport\<close> looks at. A promise that rejects, or a
  call that throws, is the left injection of a sum; \<open>Inr\<close> is the value it resolves with.
\<close>

datatype js_error = JsError (message: string) (friendlyText: "string option")

section \<open>utils/oidc/authorize.ts\<close>

subsection \<open>Types of the SDK that the module imports\<close>

text \<open>
  \<open>QueryDict\<close> is the SDK's \<open>Record<string, string[] | string | number | boolean | undefined>\<close>.
  A missing key and the value \<open>undefined\<close> read the same (\<open>queryParams["code"]\<close> is
  \<open>undefined\<close>), so both are \<open>None\<close>. Of a number only its truthiness and its
  \<open>typeof\<close> are ever looked at; the two falsy numbers are \<open>NaN\<close> and zero.
\<close>

datatype jsnumber = NaN | Num int

datatype qvalue =
    QString string
  | QStrings "string list"
  | QNumber jsnumber
  | QBoolean bool

type_synonym QueryDict = "string \<Rightarrow> qvalue option"

text \<open>The operator \<open>!v\<close> and \<open>typeof v\<close> on such a value.\<close>

fun js_not :: "qvalue option \<Rightarrow> bool" where
  "js_not None = True"
| "js_not (Some (QString s)) = (s = [])"
| "js_not (Some (QStrings ss)) = False"
| "js_not (Some (QNumber n)) = (n = NaN \<or> n = Num 0)"
| "js_not (Some (QBoolean b)) = (\<not> b)"

fun typeof :: "qvalue option \<Rightarrow> string" where
  "typeof None = ''undefined''"
| "typeof (Some (QString s)) = ''string''"
| "typeof (Some (QStrings ss)) = ''object''"
| "typeof (Some (QNumber n)) = ''number''"
| "typeof (Some (QBoolean b)) = ''boolean''"

text \<open>What \<open>completeAuthorizationCodeGrant\<close> resolves with, and what the helper returns.\<close>

record BearerTokenResponse =
  access_token :: string
  refresh_token :: "string option"

record OidcClientSettings =
  settings_clientId :: string
  settings_issuer :: string

record AuthorizationCodeGrant =
  grant_homeserverUrl :: string
  grant_identityServerUrl :: "string option"
  tokenResponse :: BearerTokenResponse
  oidcClientSettings :: OidcClientSettings

record OidcLogin =
  homeserverUrl :: string
  identityServerUrl :: "string option"
  accessToken :: string
  clientId :: string
  issuer :: string

text \<open>
  The discovered configuration, of which only \<open>metadata\<close> is read (\<open>'m\<close>, the provider
  metadata), and the argument object of \<open>generateOidcAuthorizationUrl\<close>.
\<close>

record 'm OidcClientConfig =
  metadata :: 'm

record 'm AuthorizationParams =
  arg_metadata :: 'm
  arg_redirectUri :: string
  arg_clientId :: string
  arg_homeserverUrl :: string
  arg_identityServerUrl :: "string option"
  arg_nonce :: string

text \<open>
  What the module does to the outside world, in the order it does it: the calls into the
  SDK with their arguments, and the assignment to \<open>window.location.href\<close>.
\<close>

datatype 'm start_event =
    RandomString nat
  | GenerateOidcAuthorizationUrl "'m AuthorizationParams"
  | SetLocationHref string

datatype complete_event = CompleteAuthorizationCodeGrant string string

subsection \<open>startOidcLogin\<close>

text \<open>
  The environment of one call: \<open>window.location.origin\<close>, the string that
  \<open>randomString\<close> hands out for a length, and the outcome of the SDK's
  \<open>generateOidcAuthorizationUrl\<close> on its argument object.
\<close>

record 'm oidc_env =
  location_origin :: string
  randomString :: "nat \<Rightarrow> string"
  generateOidcAuthorizationUrl :: "'m AuthorizationParams \<Rightarrow> js_error + string"

definition startOidcLogin ::
  "'m oidc_env \<Rightarrow> 'm OidcClientConfig \<Rightarrow> string \<Rightarrow> string \<Rightarrow> string option
     \<Rightarrow> (js_error + unit) \<times> 'm start_event list"
where
  "startOidcLogin env delegatedAuthConfig clientId' homeserverUrl' identityServerUrl' =
    (let redirectUri = location_origin env;
         nonce = randomString env 10;
         params = \<lparr> arg_metadata = metadata delegatedAuthConfig, arg_redirectUri = redirectUri,
                    arg_clientId = clientId', arg_homeserverUrl = homeserverUrl',
                    arg_identityServerUrl = identityServerUrl', arg_nonce = nonce \<rparr>
     in case generateOidcAuthorizationUrl env params of
          Inl e \<Rightarrow> (Inl e, [RandomString 10, GenerateOidcAuthorizationUrl params])
        | Inr authorizationUrl \<Rightarrow>
            (Inr (), [RandomString 10, GenerateOidcAuthorizationUrl params,
                      SetLocationHref authorizationUrl]))"

subsection \<open>getCodeAndStateFromQueryParams and completeOidcLogin\<close>

definition invalid_query_error :: js_error where
  "invalid_query_error =
     JsError ''Invalid query parameters for OIDC native login. `code` and `state` are required.'' None"

text \<open>
  After the test both values are strings (TypeScript narrows them); the last case of the
  \<open>case\<close> is never taken (\<open>getCodeAndState_narrowed\<close> below).
\<close>

definition getCodeAndStateFromQueryParams :: "QueryDict \<Rightarrow> js_error + (string \<times> string)" where
  "getCodeAndStateFromQueryParams queryParams =
    (let code = queryParams ''code'';
         state = queryParams ''state''
     in if js_not code \<or> typeof code \<noteq> ''string'' \<or> js_not state \<or> typeof state \<noteq> ''string''
        then Inl invalid_query_error
        else (case (code, state) of
                (Some (QString c), Some (QString s)) \<Rightarrow> Inr (c, s)
              | _ \<Rightarrow> Inl invalid_query_error))"

text \<open>
  The SDK's \<open>completeAuthorizationCodeGrant\<close> is a parameter: the outcome of the call on
  a code and a state. The helper either rejects with its own error before any call, or
  makes the one call and maps the result.
\<close>

definition completeOidcLogin ::
  "(string \<Rightarrow> string \<Rightarrow> js_error + AuthorizationCodeGrant) \<Rightarrow> QueryDict
     \<Rightarrow> (js_error + OidcLogin) \<times> complete_event list"
where
  "completeOidcLogin completeAuthorizationCodeGrant queryParams =
    (case getCodeAndStateFromQueryParams queryParams of
       Inl e \<Rightarrow> (Inl e, [])
     | Inr (code, state) \<Rightarrow>
         (case completeAuthorizationCodeGrant code state of
            Inl e \<Rightarrow> (Inl e, [CompleteAuthorizationCodeGrant code state])
          | Inr g \<Rightarrow>
              (Inr \<lparr> homeserverUrl = grant_homeserverUrl g,
                     identityServerUrl = grant_identityServerUrl g,
                     accessToken = access_token (tokenResponse g),
                     clientId = settings_clientId (oidcClientSettings g),
                     issuer = settings_issuer (oidcClientSettings g) \<rparr>,
               [CompleteAuthorizationCodeGrant code state])))"

text \<open>
  The claims' words for a usable parameter: present, a single string, and not empty.
\<close>

definition nonempty_string :: "qvalue option \<Rightarrow> bool" where
  "nonempty_string v = (case v of Some (QString s) \<Rightarrow> s \<noteq> [] | _ \<Rightarrow> False)"

section \<open>React components\<close>

text \<open>
  What the two classes share with \<open>React.Component\<close>: \<open>this.state\<close>, and the private flag
  \<open>unmounted\<close> that both declare (initially false) and that \<open>componentWillUnmount\<close> sets.

  An effect is either a call of \<open>this.setState\<close> with its partial state, or a call that
  leaves the component (\<open>'c\<close>, one datatype per class). A method is a function from the
  instance to the instance it leaves behind and the effects in the order they happen.
  \<open>setState\<close> is applied at once; no method reads a field back after setting it.
  Calls into the SDK and the file saver can throw or reject, and do so as their outcome
  says; the logger, \<open>setState\<close>, the \<open>onFinished\<close> prop and \<open>field.validate\<close> are taken to
  return.

  An asynchronous method gives control away at every \<open>await\<close> and in every
  \<open>.then\<close>. What the rest of the application does to the instance meanwhile (the user
  types, the component is unmounted, another method sets state) is a parameter
  \<open>later :: instance \<Rightarrow> instance\<close> of the model, applied where the method resumes, and every
  theorem holds for all of them.
\<close>

record 's Component =
  state :: 's
  unmounted :: bool

datatype ('u, 'c) effect = SetState 'u | Call 'c

definition componentWillUnmount :: "('s, 'z) Component_scheme \<Rightarrow> ('s, 'z) Component_scheme" where
  "componentWillUnmount this = this\<lparr> unmounted := True \<rparr>"

fun setStates :: "('u, 'c) effect list \<Rightarrow> 'u list" where
  "setStates [] = []"
| "setStates (SetState u # es) = u # setStates es"
| "setStates (Call c # es) = setStates es"

fun calls :: "('u, 'c) effect list \<Rightarrow> 'c list" where
  "calls [] = []"
| "calls (SetState u # es) = calls es"
| "calls (Call c # es) = c # calls es"

section \<open>async-components/views/dialogs/security/ExportE2eKeysDialog.tsx\<close>

datatype Phase = Edit | Exporting

record IState =
  phase :: Phase
  errStr :: "string option"
  passphrase1 :: string
  passphrase2 :: string

text \<open>The argument of \<open>setState\<close>: the fields it names (\<open>None\<close>: the field is not named).\<close>

record IState_update =
  set_phase :: "Phase option"
  set_errStr :: "string option option"
  set_passphrase1 :: "string option"
  set_passphrase2 :: "string option"

definition merge_IState :: "IState_update \<Rightarrow> IState \<Rightarrow> IState" where
  "merge_IState u s =
     \<lparr> phase = (case set_phase u of None \<Rightarrow> phase s | Some v \<Rightarrow> v),
       errStr = (case set_errStr u of None \<Rightarrow> errStr s | Some v \<Rightarrow> v),
       passphrase1 = (case set_passphrase1 u of None \<Rightarrow> passphrase1 s | Some v \<Rightarrow> v),
       passphrase2 = (case set_passphrase2 u of None \<Rightarrow> passphrase2 s | Some v \<Rightarrow> v) \<rparr>"

text \<open>
  The instance: the two field references (\<open>null\<close> until \<open>fieldRef\<close> has run) over the
  component. \<open>'f\<close> is the \<open>Field\<close> component, of which only \<open>validate\<close> and \<open>focus\<close> are
  called.
\<close>

record 'f ExportE2eKeysDialog = "IState Component" +
  fieldPassword :: "'f option"
  fieldPasswordConfirm :: "'f option"

definition ExportE2eKeysDialog_constructor :: "'f ExportE2eKeysDialog" where
  "ExportE2eKeysDialog_constructor =
     \<lparr> state = \<lparr> phase = Edit, errStr = None, passphrase1 = [], passphrase2 = [] \<rparr>,
       unmounted = False, fieldPassword = None, fieldPasswordConfirm = None \<rparr>"

record IValidateOpts =
  allowEmpty :: "bool option"
  focused :: "bool option"

record 'b Blob =
  blobParts :: "'b list"
  blob_type :: string

datatype PassphraseKey = Passphrase1 | Passphrase2

text \<open>
  The calls that leave the dialog. \<open>'b\<close> is what \<open>encryptMegolmKeyFile\<close> resolves with
  (an \<open>ArrayBuffer\<close>).
\<close>

datatype ('f, 'b) dialog_call =
    PreventDefault
  | Validate 'f IValidateOpts
  | Focus 'f
  | ExportRoomKeys
  | EncryptMegolmKeyFile string string
  | SaveAs "'b Blob" string
  | OnFinished bool
  | LoggerError string js_error

type_synonym ('f, 'b) dialog_effect = "(IState_update, ('f, 'b) dialog_call) effect"

text \<open>
  The props and imports of the dialog, as the outcomes of their calls: what the awaited
  \<open>field.validate(opts)\<close> yields (\<open>boolean | undefined\<close>), \<open>matrixClient.exportRoomKeys()\<close>,
  \<open>JSON.stringify\<close> on the exported keys \<open>'k\<close>, \<open>MegolmExportEncryption.encryptMegolmKeyFile\<close>,
  \<open>FileSaver.saveAs\<close>, and the translation \<open>_t\<close> (here \<open>t'\<close>).
\<close>

record ('f, 'k, 'b) dialog_env =
  validate :: "'f \<Rightarrow> IValidateOpts \<Rightarrow> bool option"
  exportRoomKeys :: "js_error + 'k"
  JSON_stringify :: "'k \<Rightarrow> string"
  encryptMegolmKeyFile :: "string \<Rightarrow> string \<Rightarrow> js_error + 'b"
  saveAs :: "'b Blob \<Rightarrow> string \<Rightarrow> js_error + unit"
  t' :: "string \<Rightarrow> string"

subsection \<open>verifyFieldsBeforeSubmit\<close>

text \<open>
  The \<open>for\<close> loop over \<open>fieldsInDisplayOrder\<close>, with \<open>invalidFields\<close> as accumulator.
  \<open>!valid\<close> holds for \<open>false\<close> and for \<open>undefined\<close>.
\<close>

fun validate_loop ::
  "('f, 'k, 'b) dialog_env \<Rightarrow> 'f option list \<Rightarrow> 'f list \<Rightarrow> 'f list \<times> ('f, 'b) dialog_effect list"
where
  "validate_loop env [] invalidFields = (invalidFields, [])"
| "validate_loop env (None # rest) invalidFields = validate_loop env rest invalidFields"
| "validate_loop env (Some field # rest) invalidFields =
     (let opts = \<lparr> allowEmpty = Some False, focused = None \<rparr>;
          valid = validate env field opts;
          (invalid, effects) =
             validate_loop env rest
               (if valid = Some True then invalidFields else invalidFields @ [field])
      in (invalid, Call (Validate field opts) # effects))"

definition verifyFieldsBeforeSubmit ::
  "('f, 'k, 'b) dialog_env \<Rightarrow> 'f ExportE2eKeysDialog \<Rightarrow> bool \<times> ('f, 'b) dialog_effect list"
where
  "verifyFieldsBeforeSubmit env this =
     (let fieldsInDisplayOrder = [fieldPassword this, fieldPasswordConfirm this];
          (invalidFields, effects) = validate_loop env fieldsInDisplayOrder []
      in case invalidFields of
           [] \<Rightarrow> (True, effects)
         | first # _ \<Rightarrow>
             (False, effects @ [Call (Focus first),
                Call (Validate first \<lparr> allowEmpty = Some False, focused = Some True \<rparr>)]))"

subsection \<open>startExport\<close>

text \<open>
  A promise that has settled: its outcome and the effects of computing it.
  \<open>Promise_then\<close> is \<open>Promise.prototype.then\<close> with one callback; a callback that
  throws, or returns a promise that rejects, rejects the result.
\<close>

type_synonym ('a, 'e) promise = "(js_error + 'a) \<times> 'e list"

definition Promise_then :: "('a, 'e) promise \<Rightarrow> ('a \<Rightarrow> ('b, 'e) promise) \<Rightarrow> ('b, 'e) promise" where
  "Promise_then p onFulfilled =
     (case fst p of
        Inl e \<Rightarrow> (Inl e, snd p)
      | Inr v \<Rightarrow> (let q = onFulfilled v in (fst q, snd p @ snd q)))"

definition Promise_resolve :: "(unit, 'e) promise" where
  "Promise_resolve = (Inr (), [])"

text \<open>The three \<open>.then\<close> callbacks of \<open>startExport\<close>, and the chain up to the \<open>.catch\<close>.\<close>

definition export_keys :: "('f, 'k, 'b) dialog_env \<Rightarrow> unit \<Rightarrow> ('k, ('f, 'b) dialog_effect) promise" where
  "export_keys env u = (exportRoomKeys env, [Call ExportRoomKeys])"

definition encrypt_keys ::
  "('f, 'k, 'b) dialog_env \<Rightarrow> string \<Rightarrow> 'k \<Rightarrow> ('b, ('f, 'b) dialog_effect) promise"
where
  "encrypt_keys env passphrase k =
     (let json = JSON_stringify env k
      in (encryptMegolmKeyFile env json passphrase, [Call (EncryptMegolmKeyFile json passphrase)]))"

definition save_file :: "('f, 'k, 'b) dialog_env \<Rightarrow> 'b \<Rightarrow> (unit, ('f, 'b) dialog_effect) promise" where
  "save_file env f =
     (let blob = \<lparr> blobParts = [f], blob_type = ''text/plain;charset=us-ascii'' \<rparr>
      in case saveAs env blob ''element-keys.txt'' of
           Inl e \<Rightarrow> (Inl e, [Call (SaveAs blob ''element-keys.txt'')])
         | Inr u \<Rightarrow> (Inr (), [Call (SaveAs blob ''element-keys.txt''), Call (OnFinished True)]))"

definition export_chain ::
  "('f, 'k, 'b) dialog_env \<Rightarrow> string \<Rightarrow> (unit, ('f, 'b) dialog_effect) promise"
where
  "export_chain env passphrase =
     Promise_then (Promise_then (Promise_then Promise_resolve (export_keys env)) (encrypt_keys env passphrase))
           (save_file env)"

text \<open>
  \<open>e.friendlyText || _t("Unknown error")\<close>: a missing and an empty text are both falsy.
\<close>

definition failure_message :: "('f, 'k, 'b) dialog_env \<Rightarrow> js_error \<Rightarrow> string" where
  "failure_message env e =
     (case friendlyText e of
        None \<Rightarrow> t' env ''Unknown error''
      | Some text \<Rightarrow> if text = [] then t' env ''Unknown error'' else text)"

text \<open>The \<open>.catch\<close> callback.\<close>

definition export_failed ::
  "('f, 'k, 'b) dialog_env \<Rightarrow> js_error \<Rightarrow> 'f ExportE2eKeysDialog
     \<Rightarrow> 'f ExportE2eKeysDialog \<times> ('f, 'b) dialog_effect list"
where
  "export_failed env e this =
     (if unmounted this then (this, [Call (LoggerError ''Error exporting e2e keys:'' e)])
      else
        (let msg = failure_message env e;
             update = \<lparr> set_phase = Some Edit, set_errStr = Some (Some msg),
                        set_passphrase1 = None, set_passphrase2 = None \<rparr>
         in (this\<lparr> state := merge_IState update (state this) \<rparr>,
             [Call (LoggerError ''Error exporting e2e keys:'' e), SetState update])))"

text \<open>
  \<open>startExport\<close> sets up the chain, whose callbacks run only after the method has
  returned, and sets the phase at once. \<open>later\<close> is what happens to the dialog between
  that and the settling of the chain.
\<close>

definition exporting_update :: IState_update where
  "exporting_update =
     \<lparr> set_phase = Some Exporting, set_errStr = Some None,
       set_passphrase1 = None, set_passphrase2 = None \<rparr>"

definition startExport ::
  "('f, 'k, 'b) dialog_env \<Rightarrow> ('f ExportE2eKeysDialog \<Rightarrow> 'f ExportE2eKeysDialog) \<Rightarrow> string
     \<Rightarrow> 'f ExportE2eKeysDialog \<Rightarrow> 'f ExportE2eKeysDialog \<times> ('f, 'b) dialog_effect list"
where
  "startExport env later passphrase this =
     (let this1 = this\<lparr> state := merge_IState exporting_update (state this) \<rparr>;
          chain = export_chain env passphrase;
          this2 = later this1
      in case fst chain of
           Inr u \<Rightarrow> (this2, SetState exporting_update # snd chain)
         | Inl e \<Rightarrow>
             (let (this3, effects) = export_failed env e this2
              in (this3, SetState exporting_update # snd chain @ effects)))"

subsection \<open>The event handlers and render\<close>

text \<open>
  \<open>onPassphraseFormSubmit\<close> awaits the validation; \<open>validating\<close> is what happens to the
  dialog during it, \<open>exporting\<close> what happens while the export chain is pending.
\<close>

definition onPassphraseFormSubmit ::
  "('f, 'k, 'b) dialog_env \<Rightarrow> ('f ExportE2eKeysDialog \<Rightarrow> 'f ExportE2eKeysDialog)
     \<Rightarrow> ('f ExportE2eKeysDialog \<Rightarrow> 'f ExportE2eKeysDialog)
     \<Rightarrow> 'f ExportE2eKeysDialog \<Rightarrow> 'f ExportE2eKeysDialog \<times> ('f, 'b) dialog_effect list"
where
  "onPassphraseFormSubmit env validating exporting this =
     (let (verified, effects) = verifyFieldsBeforeSubmit env this;
          this1 = validating this
      in if \<not> verified then (this1, Call PreventDefault # effects)
         else if unmounted this1 then (this1, Call PreventDefault # effects)
         else
           (let passphrase = passphrase1 (state this1);
                (this2, export_effects) = startExport env exporting passphrase this1
            in (this2, Call PreventDefault # effects @ export_effects)))"

definition onCancelClick ::
  "'f ExportE2eKeysDialog \<Rightarrow> bool \<times> 'f ExportE2eKeysDialog \<times> ('f, 'b) dialog_effect list"
where
  "onCancelClick this = (False, this, [Call PreventDefault, Call (OnFinished False)])"

definition onPassphraseChange ::
  "string \<Rightarrow> PassphraseKey \<Rightarrow> 'f ExportE2eKeysDialog
     \<Rightarrow> 'f ExportE2eKeysDialog \<times> ('f, 'b) dialog_effect list"
where
  "onPassphraseChange target_value phrase this =
     (let update = (case phrase of
                      Passphrase1 \<Rightarrow> \<lparr> set_phase = None, set_errStr = None,
                                        set_passphrase1 = Some target_value, set_passphrase2 = None \<rparr>
                    | Passphrase2 \<Rightarrow> \<lparr> set_phase = None, set_errStr = None,
                                        set_passphrase1 = None, set_passphrase2 = Some target_value \<rparr>)
      in (this\<lparr> state := merge_IState update (state this) \<rparr>, [SetState update]))"

text \<open>
  What \<open>render\<close> makes depend on the state: the error line, the two fields with their
  value and \<open>disabled\<close> attribute, and the \<open>disabled\<close> attribute of the two buttons.
\<close>

record dialog_view =
  error_div :: "string option"
  PassphraseField_value :: string
  PassphraseField_disabled :: bool
  PassphraseConfirmField_password :: string
  PassphraseConfirmField_value :: string
  PassphraseConfirmField_disabled :: bool
  submit_disabled :: bool
  cancel_disabled :: bool

definition render :: "'f ExportE2eKeysDialog \<Rightarrow> dialog_view" where
  "render this =
     (let disableForm = (phase (state this) = Exporting)
      in \<lparr> error_div = errStr (state this),
           PassphraseField_value = passphrase1 (state this),
           PassphraseField_disabled = disableForm,
           PassphraseConfirmField_password = passphrase1 (state this),
           PassphraseConfirmField_value = passphrase2 (state this),
           PassphraseConfirmField_disabled = disableForm,
           submit_disabled = disableForm,
           cancel_disabled = disableForm \<rparr>)"

section \<open>components/views/settings/SecureBackupPanel.tsx\<close>

subsection \<open>Types of the SDK and the state of the panel\<close>

text \<open>
  \<open>'t\<close> is the SDK's \<open>TrustInfo\<close>: the panel never builds or inspects one outside
  \<open>render\<close>, so the model is polymorphic in it.
\<close>

record IKeyBackupInfo =
  algorithm :: string
  version :: "string option"

record 't IKeyBackupCheck =
  check_backupInfo :: "IKeyBackupInfo option"
  check_trustInfo :: "'t option"

text \<open>
  What \<open>getSessionBackupPrivateKey\<close> resolves with, when it is not \<open>null\<close>: a
  \<open>Uint8Array\<close>, or a value of another type (with its truthiness), which the panel tells
  apart with \<open>instanceof\<close>.
\<close>

datatype cached_key = Uint8Array "nat list" | OtherValue bool

record CryptoApi =
  getSessionBackupPrivateKey :: "js_error + cached_key option"
  isSecretStorageReady :: "js_error + bool"

text \<open>
  The client, as the outcomes of the calls the panel makes. \<open>isKeyBackupKeyStored\<close>
  resolves with \<open>null\<close> or a record of key descriptions (here: its key ids).
\<close>

record 't MatrixClient =
  getCrypto :: "CryptoApi option"
  secretStorage_hasKey :: "js_error + bool"
  isKeyBackupKeyStored :: "js_error + string list option"
  checkKeyBackup :: "js_error + 't IKeyBackupCheck option"
  getKeyBackupVersion :: "js_error + IKeyBackupInfo option"
  isKeyBackupTrusted :: "IKeyBackupInfo \<Rightarrow> js_error + 't"
  deleteKeyBackupVersion :: "string option \<Rightarrow> js_error + unit"

text \<open>\<open>MatrixClientPeg.safeGet()\<close> throws when there is no client.\<close>

type_synonym 't MatrixClientPeg = "js_error + 't MatrixClient"

record 't SecureBackupPanel_IState =
  loading :: bool
  error :: bool
  backupKeyStored :: "bool option"
  backupKeyCached :: "bool option"
  backupKeyWellFormed :: "bool option"
  secretStorageKeyInAccount :: "bool option"
  secretStorageReady :: "bool option"
  backupInfo :: "IKeyBackupInfo option"
  backupSigStatus :: "'t option"
  sessionsRemaining :: int

record 't SecureBackupPanel_update =
  set_loading :: "bool option"
  set_error :: "bool option"
  set_backupKeyStored :: "bool option option"
  set_backupKeyCached :: "bool option option"
  set_backupKeyWellFormed :: "bool option option"
  set_secretStorageKeyInAccount :: "bool option option"
  set_secretStorageReady :: "bool option option"
  set_backupInfo :: "IKeyBackupInfo option option"
  set_backupSigStatus :: "'t option option"
  set_sessionsRemaining :: "int option"

definition no_update :: "'t SecureBackupPanel_update" where
  "no_update =
     \<lparr> set_loading = None, set_error = None, set_backupKeyStored = None,
       set_backupKeyCached = None, set_backupKeyWellFormed = None,
       set_secretStorageKeyInAccount = None, set_secretStorageReady = None,
       set_backupInfo = None, set_backupSigStatus = None, set_sessionsRemaining = None \<rparr>"

definition merge_panel ::
  "'t SecureBackupPanel_update \<Rightarrow> 't SecureBackupPanel_IState \<Rightarrow> 't SecureBackupPanel_IState"
where
  "merge_panel u s =
     \<lparr> loading = (case set_loading u of None \<Rightarrow> loading s | Some v \<Rightarrow> v),
       error = (case set_error u of None \<Rightarrow> error s | Some v \<Rightarrow> v),
       backupKeyStored = (case set_backupKeyStored u of None \<Rightarrow> backupKeyStored s | Some v \<Rightarrow> v),
       backupKeyCached = (case set_backupKeyCached u of None \<Rightarrow> backupKeyCached s | Some v \<Rightarrow> v),
       backupKeyWellFormed =
         (case set_backupKeyWellFormed u of None \<Rightarrow> backupKeyWellFormed s | Some v \<Rightarrow> v),
       secretStorageKeyInAccount =
         (case set_secretStorageKeyInAccount u of None \<Rightarrow> secretStorageKeyInAccount s | Some v \<Rightarrow> v),
       secretStorageReady =
         (case set_secretStorageReady u of None \<Rightarrow> secretStorageReady s | Some v \<Rightarrow> v),
       backupInfo = (case set_backupInfo u of None \<Rightarrow> backupInfo s | Some v \<Rightarrow> v),
       backupSigStatus = (case set_backupSigStatus u of None \<Rightarrow> backupSigStatus s | Some v \<Rightarrow> v),
       sessionsRemaining =
         (case set_sessionsRemaining u of None \<Rightarrow> sessionsRemaining s | Some v \<Rightarrow> v) \<rparr>"

type_synonym 't SecureBackupPanel = "'t SecureBackupPanel_IState Component"

definition SecureBackupPanel_constructor :: "'t SecureBackupPanel" where
  "SecureBackupPanel_constructor =
     \<lparr> state = \<lparr> loading = True, error = False, backupKeyStored = None, backupKeyCached = None,
                 backupKeyWellFormed = None, secretStorageKeyInAccount = None,
                 secretStorageReady = None, backupInfo = None, backupSigStatus = None,
                 sessionsRemaining = 0 \<rparr>,
       unmounted = False \<rparr>"

record QuestionDialogProps =
  title :: string
  description :: string
  button :: string
  danger :: bool

text \<open>
  The calls that leave the panel. \<open>GetUpdatedDiagnostics\<close> marks the place where a method
  calls \<open>this.getUpdatedDiagnostics()\<close> without awaiting it: that call runs as a flow of
  its own (\<open>getUpdatedDiagnostics\<close> below), and what it does to the state is part of the
  caller's \<open>later\<close>.
\<close>

datatype panel_call =
    GetUpdatedDiagnostics
  | IsKeyBackupKeyStored
  | GetSessionBackupPrivateKey
  | SecretStorageHasKey
  | IsSecretStorageReady
  | CheckKeyBackup
  | GetKeyBackupVersion
  | IsKeyBackupTrusted IKeyBackupInfo
  | DeleteKeyBackupVersion "string option"
  | LoggerLog string js_error
  | CreateQuestionDialog QuestionDialogProps

type_synonym 't panel_effect = "('t SecureBackupPanel_update, panel_call) effect"

text \<open>\<open>await MatrixClientPeg.safeGet().f(...)\<close>: no call is made when \<open>safeGet\<close> throws.\<close>

definition client_call ::
  "'t MatrixClientPeg \<Rightarrow> ('t MatrixClient \<Rightarrow> js_error + 'a) \<Rightarrow> panel_call
     \<Rightarrow> ('a, 't panel_effect) promise"
where
  "client_call safeGet f c =
     (case safeGet of Inl e \<Rightarrow> (Inl e, []) | Inr cli \<Rightarrow> (f cli, [Call c]))"

subsection \<open>getUpdatedDiagnostics\<close>

text \<open>The four awaited calls in their order, resolving with the argument of \<open>setState\<close>.\<close>

definition diagnostics ::
  "'t MatrixClient \<Rightarrow> CryptoApi \<Rightarrow> ('t SecureBackupPanel_update, 't panel_effect) promise"
where
  "diagnostics cli crypto =
     Promise_then (isKeyBackupKeyStored cli, [Call IsKeyBackupKeyStored]) (\<lambda>stored.
     Promise_then (getSessionBackupPrivateKey crypto, [Call GetSessionBackupPrivateKey])
       (\<lambda>backupKeyFromCache.
     Promise_then (secretStorage_hasKey cli, [Call SecretStorageHasKey]) (\<lambda>keyInAccount.
     Promise_then (isSecretStorageReady crypto, [Call IsSecretStorageReady]) (\<lambda>ready.
       (Inr (no_update
          \<lparr> set_backupKeyStored := Some (Some (stored \<noteq> None)),
            set_backupKeyCached :=
              Some (Some (case backupKeyFromCache of
                            None \<Rightarrow> False
                          | Some (Uint8Array bytes) \<Rightarrow> True
                          | Some (OtherValue truthy) \<Rightarrow> truthy)),
            set_backupKeyWellFormed :=
              Some (Some (case backupKeyFromCache of
                            Some (Uint8Array bytes) \<Rightarrow> True
                          | _ \<Rightarrow> False)),
            set_secretStorageKeyInAccount := Some (Some keyInAccount),
            set_secretStorageReady := Some (Some ready) \<rparr>), [])))))"

definition getUpdatedDiagnostics ::
  "'t MatrixClientPeg \<Rightarrow> ('t SecureBackupPanel \<Rightarrow> 't SecureBackupPanel) \<Rightarrow> 't SecureBackupPanel
     \<Rightarrow> (js_error + unit) \<times> 't SecureBackupPanel \<times> 't panel_effect list"
where
  "getUpdatedDiagnostics safeGet later this =
     (case safeGet of
        Inl e \<Rightarrow> (Inl e, this, [])
      | Inr cli \<Rightarrow>
          (case getCrypto cli of
             None \<Rightarrow> (Inr (), this, [])
           | Some crypto \<Rightarrow>
               (let p = diagnostics cli crypto;
                    this1 = later this
                in case fst p of
                     Inl e \<Rightarrow> (Inl e, this1, snd p)
                   | Inr update \<Rightarrow>
                       if unmounted this1 then (Inr (), this1, snd p)
                       else (Inr (), this1\<lparr> state := merge_panel update (state this1) \<rparr>,
                             snd p @ [SetState update]))))"

subsection \<open>loadBackupStatus and checkKeyBackupStatus\<close>

text \<open>
  The body of the \<open>try\<close> of \<open>loadBackupStatus\<close> up to the guard: the backup version, and
  for a backup the SDK's verdict on it.
\<close>

definition fetch_backup_status ::
  "'t MatrixClientPeg \<Rightarrow> (IKeyBackupInfo option \<times> 't option, 't panel_effect) promise"
where
  "fetch_backup_status safeGet =
     Promise_then (client_call safeGet getKeyBackupVersion GetKeyBackupVersion) (\<lambda>info.
       case info of
         None \<Rightarrow> (Inr (None, None), [])
       | Some b \<Rightarrow>
           Promise_then (client_call safeGet (\<lambda>cli. isKeyBackupTrusted cli b) (IsKeyBackupTrusted b))
             (\<lambda>sigStatus. (Inr (Some b, Some sigStatus), [])))"

definition loading_true :: "'t SecureBackupPanel_update" where
  "loading_true = no_update \<lparr> set_loading := Some True \<rparr>"

definition load_failed :: "'t SecureBackupPanel_update" where
  "load_failed =
     no_update \<lparr> set_loading := Some False, set_error := Some True,
                 set_backupInfo := Some None, set_backupSigStatus := Some None \<rparr>"

definition loadBackupStatus ::
  "'t MatrixClientPeg \<Rightarrow> ('t SecureBackupPanel \<Rightarrow> 't SecureBackupPanel) \<Rightarrow> 't SecureBackupPanel
     \<Rightarrow> 't SecureBackupPanel \<times> 't panel_effect list"
where
  "loadBackupStatus safeGet later this =
     (let this1 = this\<lparr> state := merge_panel loading_true (state this) \<rparr>;
          p = fetch_backup_status safeGet;
          effects = SetState loading_true # Call GetUpdatedDiagnostics # snd p;
          this2 = later this1
      in case fst p of
           Inr (info, sigStatus) \<Rightarrow>
             if unmounted this2 then (this2, effects)
             else
               (let update = no_update \<lparr> set_loading := Some False, set_error := Some False,
                                          set_backupInfo := Some info,
                                          set_backupSigStatus := Some sigStatus \<rparr>
                in (this2\<lparr> state := merge_panel update (state this2) \<rparr>,
                    effects @ [SetState update]))
         | Inl e \<Rightarrow>
             if unmounted this2
             then (this2, effects @ [Call (LoggerLog ''Unable to fetch key backup status'' e)])
             else (this2\<lparr> state := merge_panel load_failed (state this2) \<rparr>,
                   effects @ [Call (LoggerLog ''Unable to fetch key backup status'' e),
                              SetState load_failed]))"

text \<open>
  \<open>checkKeyBackupStatus\<close>: \<open>keyBackupResult?.backupInfo ?? null\<close> is \<open>null\<close> for a
  \<open>null\<close> result and for a missing field. Only the \<open>catch\<close> looks at \<open>unmounted\<close>.
\<close>

definition checkKeyBackupStatus ::
  "'t MatrixClientPeg \<Rightarrow> ('t SecureBackupPanel \<Rightarrow> 't SecureBackupPanel) \<Rightarrow> 't SecureBackupPanel
     \<Rightarrow> 't SecureBackupPanel \<times> 't panel_effect list"
where
  "checkKeyBackupStatus safeGet later this =
     (let p = client_call safeGet checkKeyBackup CheckKeyBackup;
          effects = Call GetUpdatedDiagnostics # snd p;
          this1 = later this
      in case fst p of
           Inr keyBackupResult \<Rightarrow>
             (let update =
                    no_update \<lparr> set_loading := Some False, set_error := Some False,
                      set_backupInfo :=
                        Some (case keyBackupResult of None \<Rightarrow> None | Some r \<Rightarrow> check_backupInfo r),
                      set_backupSigStatus :=
                        Some (case keyBackupResult of None \<Rightarrow> None | Some r \<Rightarrow> check_trustInfo r) \<rparr>
              in (this1\<lparr> state := merge_panel update (state this1) \<rparr>,
                  effects @ [SetState update]))
         | Inl e \<Rightarrow>
             if unmounted this1
             then (this1, effects @ [Call (LoggerLog ''Unable to fetch check backup status'' e)])
             else (this1\<lparr> state := merge_panel load_failed (state this1) \<rparr>,
                   effects @ [Call (LoggerLog ''Unable to fetch check backup status'' e),
                              SetState load_failed]))"

subsection \<open>deleteBackup\<close>

text \<open>
  \<open>deleteBackup\<close> itself only opens the dialog. The rest is the \<open>onFinished\<close> callback it
  hands over, which the dialog calls with the answer (\<open>boolean | undefined\<close>).
  \<open>this.state.backupInfo!.version!\<close> throws a \<open>TypeError\<close> when there is no backup info
  (the \<open>!\<close> are erased by the compiler) and is \<open>undefined\<close> for an info without version.
  The promise of \<open>deleteKeyBackupVersion\<close> has a \<open>.then\<close> and no \<open>.catch\<close>.
  \<open>tr\<close> is the translation \<open>_t\<close>.
\<close>

definition TypeError :: js_error where
  "TypeError = JsError ''TypeError: Cannot read properties of null'' None"

definition delete_question :: "(string \<Rightarrow> string) \<Rightarrow> QuestionDialogProps" where
  "delete_question tr =
     \<lparr> title = tr ''Delete Backup'',
       description = tr ''Are you sure? You will lose your encrypted messages if your keys are not backed up properly.'',
       button = tr ''Delete Backup'',
       danger = True \<rparr>"

definition deleteBackup ::
  "(string \<Rightarrow> string) \<Rightarrow> 't SecureBackupPanel \<Rightarrow> 't SecureBackupPanel \<times> 't panel_effect list"
where
  "deleteBackup tr this = (this, [Call (CreateQuestionDialog (delete_question tr))])"

definition deleteBackup_onFinished ::
  "'t MatrixClientPeg \<Rightarrow> ('t SecureBackupPanel \<Rightarrow> 't SecureBackupPanel)
     \<Rightarrow> ('t SecureBackupPanel \<Rightarrow> 't SecureBackupPanel) \<Rightarrow> bool option \<Rightarrow> 't SecureBackupPanel
     \<Rightarrow> (js_error + unit) \<times> 't SecureBackupPanel \<times> 't panel_effect list"
where
  "deleteBackup_onFinished safeGet deleting reloading proceed this =
     (if proceed \<noteq> Some True then (Inr (), this, [])
      else
        (let this1 = this\<lparr> state := merge_panel loading_true (state this) \<rparr>
         in case safeGet of
              Inl e \<Rightarrow> (Inl e, this1, [SetState loading_true])
            | Inr cli \<Rightarrow>
                (case backupInfo (state this) of
                   None \<Rightarrow> (Inl TypeError, this1, [SetState loading_true])
                 | Some info \<Rightarrow>
                     (case deleteKeyBackupVersion cli (version info) of
                        Inl e \<Rightarrow>
                          (Inr (), deleting this1,
                           [SetState loading_true, Call (DeleteKeyBackupVersion (version info))])
                      | Inr u \<Rightarrow>
                          (let (this2, effects) = loadBackupStatus safeGet reloading (deleting this1)
                           in (Inr (), this2,
                               SetState loading_true # Call (DeleteKeyBackupVersion (version info))
                                 # effects))))))"

text \<open>
  The whole exchange: the click, then (\<open>answering\<close> is what happens while the dialog is
  open) the dialog's answer.
\<close>

definition deleteBackup_answered ::
  "(string \<Rightarrow> string) \<Rightarrow> 't MatrixClientPeg \<Rightarrow> ('t SecureBackupPanel \<Rightarrow> 't SecureBackupPanel)
     \<Rightarrow> ('t SecureBackupPanel \<Rightarrow> 't SecureBackupPanel)
     \<Rightarrow> ('t SecureBackupPanel \<Rightarrow> 't SecureBackupPanel) \<Rightarrow> bool option \<Rightarrow> 't SecureBackupPanel
     \<Rightarrow> (js_error + unit) \<times> 't SecureBackupPanel \<times> 't panel_effect list"
where
  "deleteBackup_answered tr safeGet answering deleting reloading proceed this =
     (let (this0, opened) = deleteBackup tr this;
          (result, this1, effects) =
             deleteBackup_onFinished safeGet deleting reloading proceed (answering this0)
      in (result, this1, opened @ effects))"

section \<open>The claims' notions\<close>

text \<open>
  The words of the claims about the export dialog, for comparison with the code: the
  fields that are present, in display order; a field that validates; the first step of
  the export (\<open>exportRoomKeys\<close>, \<open>encryptMegolmKeyFile\<close>, saving) that rejects, if any;
  and a file saved successfully.
\<close>

definition present_fields :: "'f ExportE2eKeysDialog \<Rightarrow> 'f list" where
  "present_fields this = List.map_filter (\<lambda>r. r) [fieldPassword this, fieldPasswordConfirm this]"

definition validates :: "('f, 'k, 'b) dialog_env \<Rightarrow> 'f \<Rightarrow> bool" where
  "validates env field =
     (validate env field \<lparr> allowEmpty = Some False, focused = None \<rparr> = Some True)"

definition rejection :: "('f, 'k, 'b) dialog_env \<Rightarrow> string \<Rightarrow> js_error option" where
  "rejection env passphrase =
     (case exportRoomKeys env of
        Inl e \<Rightarrow> Some e
      | Inr k \<Rightarrow>
          (case encryptMegolmKeyFile env (JSON_stringify env k) passphrase of
             Inl e \<Rightarrow> Some e
           | Inr f \<Rightarrow>
               (case saveAs env \<lparr> blobParts = [f], blob_type = ''text/plain;charset=us-ascii'' \<rparr>
                       ''element-keys.txt'' of
                  Inl e \<Rightarrow> Some e
                | Inr u \<Rightarrow> None)))"

definition saved_successfully :: "('f, 'k, 'b) dialog_env \<Rightarrow> string \<Rightarrow> bool" where
  "saved_successfully env passphrase =
     (case exportRoomKeys env of
        Inl e \<Rightarrow> False
      | Inr k \<Rightarrow>
          (case encryptMegolmKeyFile env (JSON_stringify env k) passphrase of
             Inl e \<Rightarrow> False
           | Inr f \<Rightarrow>
               (case saveAs env \<lparr> blobParts = [f], blob_type = ''text/plain;charset=us-ascii'' \<rparr>
                       ''element-keys.txt'' of
                  Inl e \<Rightarrow> False
                | Inr u \<Rightarrow> True)))"

section \<open>Example inputs\<close>

text \<open>
  Concrete inputs at which the theorems below are instantiated: a dialog with both
  fields mounted and a passphrase typed, an environment in which every step succeeds,
  and a client with one backup that the SDK trusts.
\<close>

abbreviation example_env :: "(nat, string, string) dialog_env" where
  "example_env \<equiv>
     \<lparr> validate = (\<lambda>field opts. Some True),
       exportRoomKeys = Inr ''[]'',
       JSON_stringify = (\<lambda>k. k),
       encryptMegolmKeyFile = (\<lambda>json passphrase. Inr (passphrase @ json)),
       saveAs = (\<lambda>blob name. Inr ()),
       t' = (\<lambda>s. s) \<rparr>"

abbreviation example_dialog :: "nat ExportE2eKeysDialog" where
  "example_dialog \<equiv>
     \<lparr> state = \<lparr> phase = Edit, errStr = None, passphrase1 = ''horse'', passphrase2 = ''horse'' \<rparr>,
       unmounted = False, fieldPassword = Some 1, fieldPasswordConfirm = Some 2 \<rparr>"

abbreviation example_backup :: IKeyBackupInfo where
  "example_backup \<equiv> \<lparr> algorithm = ''m.megolm_backup.v1.curve25519-aes-sha2'', version = Some ''7'' \<rparr>"

abbreviation example_client :: "bool MatrixClient" where
  "example_client \<equiv>
     \<lparr> getCrypto = Some \<lparr> getSessionBackupPrivateKey = Inr None, isSecretStorageReady = Inr True \<rparr>,
       secretStorage_hasKey = Inr True,
       isKeyBackupKeyStored = Inr None,
       checkKeyBackup = Inl (JsError ''M_UNKNOWN'' None),
       getKeyBackupVersion = Inr (Some example_backup),
       isKeyBackupTrusted = (\<lambda>info. Inr True),
       deleteKeyBackupVersion = (\<lambda>v. Inr ()) \<rparr>"

abbreviation example_panel :: "bool SecureBackupPanel" where
  "example_panel \<equiv>
     \<lparr> state = \<lparr> loading = False, error = False, backupKeyStored = None, backupKeyCached = None,
                 backupKeyWellFormed = None, secretStorageKeyInAccount = None,
                 secretStorageReady = None, backupInfo = Some example_backup,
                 backupSigStatus = None, sessionsRemaining = 0 \<rparr>,
       unmounted = False \<rparr>"

section \<open>Properties of utils/oidc/authorize.ts\<close>

lemma getCodeAndState_narrowed:
  "getCodeAndStateFromQueryParams q =
     (case (q ''code'', q ''state'') of
        (Some (QString c), Some (QString s)) \<Rightarrow>
           if c = [] \<or> s = [] then Inl invalid_query_error else Inr (c, s)
      | _ \<Rightarrow> Inl invalid_query_error)"
  unfolding getCodeAndStateFromQueryParams_def Let_def
  by (cases "q ''code''"; cases "q ''state''"; simp split: qvalue.splits)

lemma getCodeAndState_valid:
  "q ''code'' = Some (QString c) \<Longrightarrow> c \<noteq> [] \<Longrightarrow> q ''state'' = Some (QString s) \<Longrightarrow> s \<noteq> []
     \<Longrightarrow> getCodeAndStateFromQueryParams q = Inr (c, s)"
  by (simp add: getCodeAndState_narrowed)

lemma getCodeAndState_invalid:
  "\<not> (nonempty_string (q ''code'') \<and> nonempty_string (q ''state''))
     \<Longrightarrow> getCodeAndStateFromQueryParams q = Inl invalid_query_error"
  by (auto simp: getCodeAndState_narrowed nonempty_string_def split: option.splits qvalue.splits)

text \<open>
  C2. For a query dictionary whose \<open>code\<close> and \<open>state\<close> are non-empty strings, and the
  grant that the SDK's \<open>completeAuthorizationCodeGrant(code, state)\<close> resolves with,
  \<open>completeOidcLogin\<close> resolves with exactly that grant's fields: \<open>homeserverUrl\<close> and
  \<open>identityServerUrl\<close> as they are, \<open>accessToken\<close> the \<open>access_token\<close> of the token
  response, \<open>clientId\<close> and \<open>issuer\<close> from the client settings. The one call of the SDK,
  on the two strings as given, is all it does.
\<close>

theorem completeOidcLogin_returns_sdk_fields:
  assumes "queryParams ''code'' = Some (QString c)" and "c \<noteq> []"
    and "queryParams ''state'' = Some (QString s)" and "s \<noteq> []"
    and "completeAuthorizationCodeGrant c s = Inr g"
  shows "completeOidcLogin completeAuthorizationCodeGrant queryParams =
           (Inr \<lparr> homeserverUrl = grant_homeserverUrl g,
                  identityServerUrl = grant_identityServerUrl g,
                  accessToken = access_token (tokenResponse g),
                  clientId = settings_clientId (oidcClientSettings g),
                  issuer = settings_issuer (oidcClientSettings g) \<rparr>,
            [CompleteAuthorizationCodeGrant c s])"
  using assms by (simp add: completeOidcLogin_def getCodeAndState_valid)

theorem completeOidcLogin_returns_sdk_fields_witness:
  "completeOidcLogin
     (\<lambda>code state. Inr \<lparr> grant_homeserverUrl = ''https://hs.example'',
                          grant_identityServerUrl = None,
                          tokenResponse = \<lparr> access_token = code @ state, refresh_token = None \<rparr>,
                          oidcClientSettings = \<lparr> settings_clientId = ''cid'',
                                                 settings_issuer = ''https://issuer.example/'' \<rparr> \<rparr>)
     [''code'' \<mapsto> QString ''abc'', ''state'' \<mapsto> QString ''xyz'']
   = (Inr \<lparr> homeserverUrl = ''https://hs.example'', identityServerUrl = None,
            accessToken = ''abcxyz'', clientId = ''cid'', issuer = ''https://issuer.example/'' \<rparr>,
      [CompleteAuthorizationCodeGrant ''abc'' ''xyz''])"
  using completeOidcLogin_returns_sdk_fields
    [of "[''code'' \<mapsto> QString ''abc'', ''state'' \<mapsto> QString ''xyz'']" "''abc''" "''xyz''"
        "\<lambda>code state. Inr \<lparr> grant_homeserverUrl = ''https://hs.example'',
                          grant_identityServerUrl = None,
                          tokenResponse = \<lparr> access_token = code @ state, refresh_token = None \<rparr>,
                          oidcClientSettings = \<lparr> settings_clientId = ''cid'',
                                                 settings_issuer = ''https://issuer.example/'' \<rparr> \<rparr>"]
  by simp

text \<open>
  C3, as amended. \<open>completeOidcLogin\<close> rejects without having called the SDK if and only
  if the \<open>code\<close> or the \<open>state\<close> query parameter is absent, empty, or not a single string,
  and the error is then its own "Invalid query parameters" error. For every other input
  the two strings are passed to \<open>completeAuthorizationCodeGrant\<close> unchanged, in one call,
  and the helper rejects exactly when that call rejects, with the call's error.
\<close>

theorem completeOidcLogin_rejects_unasked_iff:
  "(snd (completeOidcLogin sdk q) = [] \<longleftrightarrow>
      \<not> (nonempty_string (q ''code'') \<and> nonempty_string (q ''state'')))
   \<and> (\<not> (nonempty_string (q ''code'') \<and> nonempty_string (q ''state''))
        \<longrightarrow> fst (completeOidcLogin sdk q) = Inl invalid_query_error)
   \<and> (q ''code'' = Some (QString c) \<and> c \<noteq> [] \<and> q ''state'' = Some (QString s) \<and> s \<noteq> []
        \<longrightarrow> snd (completeOidcLogin sdk q) = [CompleteAuthorizationCodeGrant c s]
          \<and> (isl (fst (completeOidcLogin sdk q)) \<longleftrightarrow> isl (sdk c s))
          \<and> (sdk c s = Inl e \<longrightarrow> fst (completeOidcLogin sdk q) = Inl e))"
proof (cases "nonempty_string (q ''code'') \<and> nonempty_string (q ''state'')")
  case False
  then have "getCodeAndStateFromQueryParams q = Inl invalid_query_error"
    by (rule getCodeAndState_invalid)
  then have "completeOidcLogin sdk q = (Inl invalid_query_error, [])"
    by (simp add: completeOidcLogin_def)
  with False show ?thesis
    by (auto simp: nonempty_string_def)
next
  case True
  then obtain c' s' where cs: "q ''code'' = Some (QString c')" "c' \<noteq> []"
      "q ''state'' = Some (QString s')" "s' \<noteq> []"
    by (auto simp: nonempty_string_def split: option.splits qvalue.splits)
  then have "getCodeAndStateFromQueryParams q = Inr (c', s')"
    by (simp add: getCodeAndState_valid)
  then have "snd (completeOidcLogin sdk q) = [CompleteAuthorizationCodeGrant c' s']"
    and "isl (fst (completeOidcLogin sdk q)) \<longleftrightarrow> isl (sdk c' s')"
    and "sdk c' s' = Inl e \<longrightarrow> fst (completeOidcLogin sdk q) = Inl e"
    by (simp_all add: completeOidcLogin_def split: sum.splits)
  with True cs show ?thesis by auto
qed

theorem completeOidcLogin_rejects_unasked_iff_witness:
  "completeOidcLogin (\<lambda>code state. Inl (JsError ''invalid_grant'' None))
      [''code'' \<mapsto> QString '''', ''state'' \<mapsto> QStrings [''xyz'', ''uvw'']]
     = (Inl invalid_query_error, [])
   \<and> completeOidcLogin (\<lambda>code state. Inl (JsError ''invalid_grant'' None))
      [''code'' \<mapsto> QString ''abc'', ''state'' \<mapsto> QString ''xyz'']
     = (Inl (JsError ''invalid_grant'' None), [CompleteAuthorizationCodeGrant ''abc'' ''xyz''])"
  using completeOidcLogin_rejects_unasked_iff
    [of "\<lambda>code state. Inl (JsError ''invalid_grant'' None)"
        "[''code'' \<mapsto> QString '''', ''state'' \<mapsto> QStrings [''xyz'', ''uvw'']]" "''abc''" "''xyz''"
        "JsError ''invalid_grant'' None"]
    completeOidcLogin_rejects_unasked_iff
    [of "\<lambda>code state. Inl (JsError ''invalid_grant'' None)"
        "[''code'' \<mapsto> QString ''abc'', ''state'' \<mapsto> QString ''xyz'']" "''abc''" "''xyz''"
        "JsError ''invalid_grant'' None"]
  by (simp add: nonempty_string_def prod_eq_iff)

text \<open>
  The claim as it was stated, that the helper throws if and only if a parameter is
  unusable, fails where both parameters are non-empty strings and the SDK's call
  rejects: the helper then rejects as well.
\<close>

theorem completeOidcLogin_throws_iff_counterexample:
  "nonempty_string ([''code'' \<mapsto> QString ''abc'', ''state'' \<mapsto> QString ''xyz''] ''code'')
   \<and> nonempty_string ([''code'' \<mapsto> QString ''abc'', ''state'' \<mapsto> QString ''xyz''] ''state'')
   \<and> fst (completeOidcLogin (\<lambda>code state. Inl (JsError ''invalid_grant'' None))
             [''code'' \<mapsto> QString ''abc'', ''state'' \<mapsto> QString ''xyz''])
       = Inl (JsError ''invalid_grant'' None)"
  by (simp add: nonempty_string_def completeOidcLogin_def getCodeAndState_narrowed)

text \<open>
  C6. Every call of \<open>startOidcLogin\<close> asks \<open>randomString\<close> for 10 characters and calls
  the SDK's \<open>generateOidcAuthorizationUrl\<close> once, with \<open>redirectUri\<close> the window's origin,
  the metadata of the given configuration, the given client id, homeserver URL and
  optional identity server URL, and the string just generated as nonce. The URL that
  this call resolves with is assigned to \<open>window.location.href\<close>, and nothing else is
  done; when the call rejects there is no navigation and the rejection is passed on.
\<close>

theorem startOidcLogin_navigates_to_sdk_url:
  "(generateOidcAuthorizationUrl env
       \<lparr> arg_metadata = metadata config, arg_redirectUri = location_origin env, arg_clientId = cid,
         arg_homeserverUrl = hs, arg_identityServerUrl = ids, arg_nonce = randomString env 10 \<rparr>
       = Inr url
     \<longrightarrow> startOidcLogin env config cid hs ids =
          (Inr (), [RandomString 10,
                    GenerateOidcAuthorizationUrl
                      \<lparr> arg_metadata = metadata config, arg_redirectUri = location_origin env,
                        arg_clientId = cid, arg_homeserverUrl = hs, arg_identityServerUrl = ids,
                        arg_nonce = randomString env 10 \<rparr>,
                    SetLocationHref url]))
   \<and> (generateOidcAuthorizationUrl env
       \<lparr> arg_metadata = metadata config, arg_redirectUri = location_origin env, arg_clientId = cid,
         arg_homeserverUrl = hs, arg_identityServerUrl = ids, arg_nonce = randomString env 10 \<rparr>
       = Inl e
     \<longrightarrow> startOidcLogin env config cid hs ids =
          (Inl e, [RandomString 10,
                   GenerateOidcAuthorizationUrl
                     \<lparr> arg_metadata = metadata config, arg_redirectUri = location_origin env,
                       arg_clientId = cid, arg_homeserverUrl = hs, arg_identityServerUrl = ids,
                       arg_nonce = randomString env 10 \<rparr>]))"
  by (simp add: startOidcLogin_def)

theorem startOidcLogin_navigates_to_sdk_url_witness:
  "startOidcLogin
     \<lparr> location_origin = ''https://app.example'',
       randomString = (\<lambda>n. ''k3Qz9pLm2X''),
       generateOidcAuthorizationUrl = (\<lambda>p. Inr (arg_metadata p @ ''?nonce='' @ arg_nonce p)) \<rparr>
     \<lparr> metadata = ''https://issuer.example/auth'' \<rparr> ''cid'' ''https://hs.example'' None
   = (Inr (),
      [RandomString 10,
       GenerateOidcAuthorizationUrl
         \<lparr> arg_metadata = ''https://issuer.example/auth'', arg_redirectUri = ''https://app.example'',
           arg_clientId = ''cid'', arg_homeserverUrl = ''https://hs.example'',
           arg_identityServerUrl = None, arg_nonce = ''k3Qz9pLm2X'' \<rparr>,
       SetLocationHref ''https://issuer.example/auth?nonce=k3Qz9pLm2X''])"
  using startOidcLogin_navigates_to_sdk_url
    [of "\<lparr> location_origin = ''https://app.example'',
           randomString = (\<lambda>n. ''k3Qz9pLm2X''),
           generateOidcAuthorizationUrl = (\<lambda>p. Inr (arg_metadata p @ ''?nonce='' @ arg_nonce p)) \<rparr>"
        "\<lparr> metadata = ''https://issuer.example/auth'' \<rparr>" "''cid''" "''https://hs.example''" None
        "''https://issuer.example/auth?nonce=k3Qz9pLm2X''"]
  by simp


section \<open>Properties of ExportE2eKeysDialog\<close>

lemma calls_append: "calls (xs @ ys) = calls xs @ calls ys"
  by (induction xs rule: calls.induct) simp_all

lemma setStates_append: "setStates (xs @ ys) = setStates xs @ setStates ys"
  by (induction xs rule: setStates.induct) simp_all

subsection \<open>The validation loop\<close>

lemma validate_loop_eq:
  "validate_loop env fs acc =
     (acc @ filter (\<lambda>f. \<not> validates env f) (List.map_filter (\<lambda>r. r) fs),
      map (\<lambda>f. Call (Validate f \<lparr> allowEmpty = Some False, focused = None \<rparr>))
          (List.map_filter (\<lambda>r. r) fs))"
proof (induction env fs acc rule: validate_loop.induct)
  case (1 env invalidFields)
  show ?case by simp
next
  case (2 env rest invalidFields)
  then show ?case by simp
next
  case (3 env field rest invalidFields)
  then show ?case by (simp add: validates_def Let_def)
qed

lemma verifyFieldsBeforeSubmit_eq:
  "verifyFieldsBeforeSubmit env this =
     (case filter (\<lambda>f. \<not> validates env f) (present_fields this) of
        [] \<Rightarrow> (True, map (\<lambda>f. Call (Validate f \<lparr> allowEmpty = Some False, focused = None \<rparr>))
                       (present_fields this))
      | first # others \<Rightarrow>
          (False, map (\<lambda>f. Call (Validate f \<lparr> allowEmpty = Some False, focused = None \<rparr>))
                       (present_fields this)
                  @ [Call (Focus first),
                     Call (Validate first \<lparr> allowEmpty = Some False, focused = Some True \<rparr>)]))"
  by (simp add: verifyFieldsBeforeSubmit_def validate_loop_eq present_fields_def Let_def
           split: list.splits)

subsection \<open>The export chain\<close>

lemma export_chain_eq:
  "export_chain env passphrase =
     (case exportRoomKeys env of
        Inl e \<Rightarrow> (Inl e, [Call ExportRoomKeys])
      | Inr k \<Rightarrow>
          (case encryptMegolmKeyFile env (JSON_stringify env k) passphrase of
             Inl e \<Rightarrow> (Inl e, [Call ExportRoomKeys,
                                Call (EncryptMegolmKeyFile (JSON_stringify env k) passphrase)])
           | Inr f \<Rightarrow>
               (case saveAs env \<lparr> blobParts = [f], blob_type = ''text/plain;charset=us-ascii'' \<rparr>
                       ''element-keys.txt'' of
                  Inl e \<Rightarrow>
                    (Inl e, [Call ExportRoomKeys,
                             Call (EncryptMegolmKeyFile (JSON_stringify env k) passphrase),
                             Call (SaveAs \<lparr> blobParts = [f], blob_type = ''text/plain;charset=us-ascii'' \<rparr>
                                     ''element-keys.txt'')])
                | Inr u \<Rightarrow>
                    (Inr (), [Call ExportRoomKeys,
                             Call (EncryptMegolmKeyFile (JSON_stringify env k) passphrase),
                             Call (SaveAs \<lparr> blobParts = [f], blob_type = ''text/plain;charset=us-ascii'' \<rparr>
                                     ''element-keys.txt''),
                             Call (OnFinished True)]))))"
  by (simp add: export_chain_def Promise_then_def Promise_resolve_def export_keys_def
        encrypt_keys_def save_file_def Let_def split: sum.splits)

lemma rejection_chain:
  "rejection env passphrase =
     (case fst (export_chain env passphrase) of Inl e \<Rightarrow> Some e | Inr u \<Rightarrow> None)"
  by (simp add: rejection_def export_chain_eq split: sum.splits)

lemma saved_chain:
  "saved_successfully env passphrase = (\<not> isl (fst (export_chain env passphrase)))"
  by (simp add: saved_successfully_def export_chain_eq split: sum.splits)

lemma OnFinished_chain:
  "filter (\<lambda>c. c = Call (OnFinished True)) (snd (export_chain env passphrase)) =
     (if saved_successfully env passphrase then [Call (OnFinished True)] else [])"
  by (simp add: saved_successfully_def export_chain_eq split: sum.splits)

lemma setStates_chain: "setStates (snd (export_chain env passphrase)) = []"
  by (simp add: export_chain_eq split: sum.splits)

lemma OnFinished_failed:
  "filter (\<lambda>c. c = Call (OnFinished True)) (snd (export_failed env e this)) = []"
  by (simp add: export_failed_def Let_def)

lemma export_failed_unmounted:
  "unmounted this \<Longrightarrow>
     export_failed env e this = (this, [Call (LoggerError ''Error exporting e2e keys:'' e)])"
  by (simp add: export_failed_def)

lemma startExport_eq:
  "startExport env later passphrase this =
     (case fst (export_chain env passphrase) of
        Inr u \<Rightarrow> (later (this\<lparr> state := merge_IState exporting_update (state this) \<rparr>),
                  SetState exporting_update # snd (export_chain env passphrase))
      | Inl e \<Rightarrow>
          (fst (export_failed env e
                  (later (this\<lparr> state := merge_IState exporting_update (state this) \<rparr>))),
           SetState exporting_update # snd (export_chain env passphrase)
             @ snd (export_failed env e
                      (later (this\<lparr> state := merge_IState exporting_update (state this) \<rparr>)))))"
  by (simp add: startExport_def Let_def split: sum.splits prod.splits)

text \<open>
  C1. For every passphrase, when \<open>exportRoomKeys\<close> resolves with keys \<open>k\<close> and
  \<open>encryptMegolmKeyFile\<close>, called with \<open>JSON.stringify(k)\<close> and that passphrase, resolves
  with \<open>f\<close>, the calls of \<open>startExport\<close> are these three in this order and one more:
  the export, the encryption of exactly that string with exactly that passphrase, and
  \<open>saveAs\<close> of a blob whose only part is \<open>f\<close> itself under the name "element-keys.txt";
  then \<open>onFinished(true)\<close>, or the logging of the error if saving threw. The dialog
  passes the bytes on and does nothing to them.
\<close>

theorem startExport_saves_encrypted_export:
  assumes "exportRoomKeys env = Inr k"
    and "encryptMegolmKeyFile env (JSON_stringify env k) passphrase = Inr f"
  shows "calls (snd (startExport env later passphrase this)) =
           [ExportRoomKeys,
            EncryptMegolmKeyFile (JSON_stringify env k) passphrase,
            SaveAs \<lparr> blobParts = [f], blob_type = ''text/plain;charset=us-ascii'' \<rparr>
              ''element-keys.txt'']
           @ (case saveAs env \<lparr> blobParts = [f], blob_type = ''text/plain;charset=us-ascii'' \<rparr>
                    ''element-keys.txt'' of
                Inr u \<Rightarrow> [OnFinished True]
              | Inl e \<Rightarrow> [LoggerError ''Error exporting e2e keys:'' e])"
  using assms
  by (simp add: startExport_eq export_chain_eq export_failed_def Let_def calls_append
           split: sum.splits)

theorem startExport_saves_encrypted_export_witness:
  "exportRoomKeys example_env = Inr ''[]''
   \<and> encryptMegolmKeyFile example_env (JSON_stringify example_env ''[]'') ''horse'' = Inr ''horse[]''
   \<and> calls (snd (startExport example_env (\<lambda>d. d) ''horse'' example_dialog)) =
       [ExportRoomKeys,
        EncryptMegolmKeyFile ''[]'' ''horse'',
        SaveAs \<lparr> blobParts = [''horse[]''], blob_type = ''text/plain;charset=us-ascii'' \<rparr>
          ''element-keys.txt'',
        OnFinished True]"
  using startExport_saves_encrypted_export
    [of example_env "''[]''" "''horse''" "''horse[]''" "\<lambda>d. d" example_dialog]
  by simp

text \<open>
  C4, as amended. On every submission of the passphrase form the default action is
  prevented and each passphrase field that is present is validated with
  \<open>allowEmpty: false\<close>, in display order (passphrase first, confirmation second). If every
  present field validates and the dialog has not been unmounted meanwhile, the export
  starts with the value that \<open>passphrase1\<close> has then; if every present field validates
  and the dialog has been unmounted, nothing more happens. Otherwise the export is not
  started, and the first invalid field in display order is focused and validated again
  with \<open>focused: true\<close>.
\<close>

theorem onPassphraseFormSubmit_effects:
  "snd (onPassphraseFormSubmit env validating exporting this) =
     Call PreventDefault
       # map (\<lambda>f. Call (Validate f \<lparr> allowEmpty = Some False, focused = None \<rparr>))
             (present_fields this)
       @ (case filter (\<lambda>f. \<not> validates env f) (present_fields this) of
            [] \<Rightarrow>
              if unmounted (validating this) then []
              else snd (startExport env exporting (passphrase1 (state (validating this)))
                          (validating this))
          | first # others \<Rightarrow>
              [Call (Focus first),
               Call (Validate first \<lparr> allowEmpty = Some False, focused = Some True \<rparr>)])"
  by (simp add: onPassphraseFormSubmit_def verifyFieldsBeforeSubmit_eq Let_def
           split: list.splits prod.splits)

theorem onPassphraseFormSubmit_effects_witness:
  "snd (onPassphraseFormSubmit example_env (\<lambda>d. d) (\<lambda>d. d) example_dialog) =
     [Call PreventDefault,
      Call (Validate 1 \<lparr> allowEmpty = Some False, focused = None \<rparr>),
      Call (Validate 2 \<lparr> allowEmpty = Some False, focused = None \<rparr>),
      SetState exporting_update,
      Call ExportRoomKeys,
      Call (EncryptMegolmKeyFile ''[]'' ''horse''),
      Call (SaveAs \<lparr> blobParts = [''horse[]''], blob_type = ''text/plain;charset=us-ascii'' \<rparr>
              ''element-keys.txt''),
      Call (OnFinished True)]
   \<and> snd (onPassphraseFormSubmit (example_env \<lparr> validate := (\<lambda>field opts. Some (field = 1)) \<rparr>)
             (\<lambda>d. d) (\<lambda>d. d) example_dialog) =
     [Call PreventDefault,
      Call (Validate 1 \<lparr> allowEmpty = Some False, focused = None \<rparr>),
      Call (Validate 2 \<lparr> allowEmpty = Some False, focused = None \<rparr>),
      Call (Focus 2),
      Call (Validate 2 \<lparr> allowEmpty = Some False, focused = Some True \<rparr>)]"
  using onPassphraseFormSubmit_effects [of example_env "\<lambda>d. d" "\<lambda>d. d" example_dialog]
    onPassphraseFormSubmit_effects
      [of "example_env \<lparr> validate := (\<lambda>field opts. Some (field = 1)) \<rparr>" "\<lambda>d. d" "\<lambda>d. d"
          example_dialog]
  by (simp add: present_fields_def validates_def startExport_eq export_chain_eq)

text \<open>
  The claim as it was stated fails where both fields validate and the dialog is
  unmounted while the validation is awaited: the guard \<open>if (this.unmounted) return\<close>
  ends the handler, and no export starts.
\<close>

theorem onPassphraseFormSubmit_counterexample:
  "list_all (validates example_env) (present_fields example_dialog)
   \<and> snd (onPassphraseFormSubmit example_env componentWillUnmount (\<lambda>d. d) example_dialog) =
       [Call PreventDefault,
        Call (Validate 1 \<lparr> allowEmpty = Some False, focused = None \<rparr>),
        Call (Validate 2 \<lparr> allowEmpty = Some False, focused = None \<rparr>)]"
  by (simp add: present_fields_def validates_def onPassphraseFormSubmit_def
        verifyFieldsBeforeSubmit_def componentWillUnmount_def Let_def)

text \<open>
  C8. \<open>onFinished(true)\<close> is called exactly when the file was saved successfully, and then
  once; the file is saved successfully exactly when none of the three steps
  (\<open>exportRoomKeys\<close>, \<open>encryptMegolmKeyFile\<close>, saving) rejects. When a step rejects with
  \<open>e\<close> and the dialog is still mounted as the rejection is handled, the state is set to
  phase \<open>Edit\<close> with \<open>errStr\<close> the \<open>friendlyText\<close> of \<open>e\<close>, or the translated "Unknown error"
  when \<open>e\<close> has no such text. Cancelling prevents the default action and calls
  \<open>onFinished(false)\<close>, and nothing else.
\<close>

theorem export_finishes_iff_saved:
  "filter (\<lambda>c. c = Call (OnFinished True)) (snd (startExport env later passphrase this)) =
     (if saved_successfully env passphrase then [Call (OnFinished True)] else [])
   \<and> (saved_successfully env passphrase \<longleftrightarrow> rejection env passphrase = None)
   \<and> (rejection env passphrase = Some e
        \<and> \<not> unmounted (later (this\<lparr> state := merge_IState exporting_update (state this) \<rparr>))
        \<longrightarrow> phase (state (fst (startExport env later passphrase this))) = Edit
          \<and> errStr (state (fst (startExport env later passphrase this)))
              = Some (failure_message env e)
          \<and> failure_message env e
              = (if friendlyText e = None \<or> friendlyText e = Some []
                 then t' env ''Unknown error'' else the (friendlyText e)))
   \<and> onCancelClick this = (False, this, [Call PreventDefault, Call (OnFinished False)])"
proof (intro conjI impI)
  show "filter (\<lambda>c. c = Call (OnFinished True)) (snd (startExport env later passphrase this)) =
     (if saved_successfully env passphrase then [Call (OnFinished True)] else [])"
    using OnFinished_chain [of env passphrase]
    by (simp add: startExport_eq OnFinished_failed saved_chain split: sum.splits)
next
  show "saved_successfully env passphrase \<longleftrightarrow> rejection env passphrase = None"
    by (simp add: saved_chain rejection_chain split: sum.splits)
next
  assume a: "rejection env passphrase = Some e
          \<and> \<not> unmounted (later (this\<lparr> state := merge_IState exporting_update (state this) \<rparr>))"
  then have "fst (export_chain env passphrase) = Inl e"
    by (simp add: rejection_chain split: sum.splits)
  with a show "phase (state (fst (startExport env later passphrase this))) = Edit"
    and "errStr (state (fst (startExport env later passphrase this)))
           = Some (failure_message env e)"
    by (simp_all add: startExport_eq export_failed_def merge_IState_def Let_def)
  show "failure_message env e
              = (if friendlyText e = None \<or> friendlyText e = Some []
                 then t' env ''Unknown error'' else the (friendlyText e))"
    by (simp add: failure_message_def split: option.splits)
next
  show "onCancelClick this = (False, this, [Call PreventDefault, Call (OnFinished False)])"
    by (simp add: onCancelClick_def)
qed

theorem export_finishes_iff_saved_witness:
  "rejection (example_env \<lparr> encryptMegolmKeyFile :=
                (\<lambda>json passphrase. Inl (JsError ''OperationError'' (Some ''Could not encrypt''))) \<rparr>)
     ''horse'' = Some (JsError ''OperationError'' (Some ''Could not encrypt''))
   \<and> filter (\<lambda>c. c = Call (OnFinished True))
       (snd (startExport (example_env \<lparr> encryptMegolmKeyFile :=
                (\<lambda>json passphrase. Inl (JsError ''OperationError'' (Some ''Could not encrypt''))) \<rparr>)
               (\<lambda>d. d) ''horse'' example_dialog)) = []
   \<and> state (fst (startExport (example_env \<lparr> encryptMegolmKeyFile :=
                (\<lambda>json passphrase. Inl (JsError ''OperationError'' (Some ''Could not encrypt''))) \<rparr>)
               (\<lambda>d. d) ''horse'' example_dialog))
       = \<lparr> phase = Edit, errStr = Some ''Could not encrypt'',
           passphrase1 = ''horse'', passphrase2 = ''horse'' \<rparr>"
  using export_finishes_iff_saved
    [of "example_env \<lparr> encryptMegolmKeyFile :=
           (\<lambda>json passphrase. Inl (JsError ''OperationError'' (Some ''Could not encrypt''))) \<rparr>"
        "\<lambda>d. d" "''horse''" example_dialog "JsError ''OperationError'' (Some ''Could not encrypt'')"]
  by (simp add: rejection_def saved_successfully_def startExport_eq export_chain_eq
        export_failed_def failure_message_def merge_IState_def exporting_update_def Let_def)

text \<open>
  C9, as amended. In every render the submit input, the cancel button and both
  passphrase fields are disabled exactly when the phase is \<open>Exporting\<close>: all four in
  phase \<open>Exporting\<close>, none in phase \<open>Edit\<close>. \<open>startExport\<close> sets the phase to \<open>Exporting\<close>
  before any step of the export runs; the phase returns to \<open>Edit\<close> when the export fails
  and the dialog is still mounted as the failure is handled, and the dialog does not
  set it again when the file has been saved.
\<close>

theorem form_disabled_exactly_while_exporting:
  "submit_disabled (render this) = (phase (state this) = Exporting)
   \<and> cancel_disabled (render this) = (phase (state this) = Exporting)
   \<and> PassphraseField_disabled (render this) = (phase (state this) = Exporting)
   \<and> PassphraseConfirmField_disabled (render this) = (phase (state this) = Exporting)
   \<and> (phase (state this) = Edit \<longrightarrow>
        \<not> submit_disabled (render this) \<and> \<not> cancel_disabled (render this)
        \<and> \<not> PassphraseField_disabled (render this)
        \<and> \<not> PassphraseConfirmField_disabled (render this))
   \<and> hd (snd (startExport env later passphrase this)) = SetState exporting_update
   \<and> phase (merge_IState exporting_update (state this)) = Exporting
   \<and> (rejection env passphrase = Some e
        \<and> \<not> unmounted (later (this\<lparr> state := merge_IState exporting_update (state this) \<rparr>))
        \<longrightarrow> phase (state (fst (startExport env later passphrase this))) = Edit)
   \<and> (saved_successfully env passphrase
        \<longrightarrow> fst (startExport env later passphrase this)
            = later (this\<lparr> state := merge_IState exporting_update (state this) \<rparr>))"
proof (intro conjI impI)
  show "submit_disabled (render this) = (phase (state this) = Exporting)"
    and "cancel_disabled (render this) = (phase (state this) = Exporting)"
    and "PassphraseField_disabled (render this) = (phase (state this) = Exporting)"
    and "PassphraseConfirmField_disabled (render this) = (phase (state this) = Exporting)"
    by (simp_all add: render_def Let_def)
next
  assume "phase (state this) = Edit"
  then show "\<not> submit_disabled (render this)" and "\<not> cancel_disabled (render this)"
    and "\<not> PassphraseField_disabled (render this)"
    and "\<not> PassphraseConfirmField_disabled (render this)"
    by (simp_all add: render_def)
next
  show "hd (snd (startExport env later passphrase this)) = SetState exporting_update"
    by (simp add: startExport_eq split: sum.splits)
next
  show "phase (merge_IState exporting_update (state this)) = Exporting"
    by (simp add: merge_IState_def exporting_update_def)
next
  assume a: "rejection env passphrase = Some e
        \<and> \<not> unmounted (later (this\<lparr> state := merge_IState exporting_update (state this) \<rparr>))"
  then have "fst (export_chain env passphrase) = Inl e"
    by (simp add: rejection_chain split: sum.splits)
  with a show "phase (state (fst (startExport env later passphrase this))) = Edit"
    by (simp add: startExport_eq export_failed_def merge_IState_def Let_def)
next
  assume "saved_successfully env passphrase"
  then obtain u where "fst (export_chain env passphrase) = Inr u"
    by (cases "fst (export_chain env passphrase)") (simp_all add: saved_chain)
  then show "fst (startExport env later passphrase this)
            = later (this\<lparr> state := merge_IState exporting_update (state this) \<rparr>)"
    by (simp add: startExport_eq)
qed

theorem form_disabled_exactly_while_exporting_witness:
  "render (fst (startExport example_env (\<lambda>d. d) ''horse'' example_dialog))
     = \<lparr> error_div = None,
         PassphraseField_value = ''horse'', PassphraseField_disabled = True,
         PassphraseConfirmField_password = ''horse'',
         PassphraseConfirmField_value = ''horse'', PassphraseConfirmField_disabled = True,
         submit_disabled = True, cancel_disabled = True \<rparr>
   \<and> render (fst (startExport (example_env \<lparr> exportRoomKeys := Inl (JsError ''offline'' None) \<rparr>)
                    (\<lambda>d. d) ''horse'' example_dialog))
     = \<lparr> error_div = Some ''Unknown error'',
         PassphraseField_value = ''horse'', PassphraseField_disabled = False,
         PassphraseConfirmField_password = ''horse'',
         PassphraseConfirmField_value = ''horse'', PassphraseConfirmField_disabled = False,
         submit_disabled = False, cancel_disabled = False \<rparr>"
  using form_disabled_exactly_while_exporting
    [of "fst (startExport example_env (\<lambda>d. d) ''horse'' example_dialog)"
        example_env "\<lambda>d. d" "''horse''" "JsError ''offline'' None"]
    form_disabled_exactly_while_exporting
    [of "fst (startExport (example_env \<lparr> exportRoomKeys := Inl (JsError ''offline'' None) \<rparr>)
                    (\<lambda>d. d) ''horse'' example_dialog)"
        "example_env \<lparr> exportRoomKeys := Inl (JsError ''offline'' None) \<rparr>"
        "\<lambda>d. d" "''horse''" "JsError ''offline'' None"]
  by (simp add: startExport_eq export_chain_eq export_failed_def failure_message_def
        merge_IState_def exporting_update_def render_def Let_def)

text \<open>
  The claim as it was stated concludes that no second export can be started while the
  phase is \<open>Exporting\<close>. Neither \<open>onPassphraseFormSubmit\<close> nor \<open>startExport\<close> reads the
  phase: a submission whose validation is still awaited when another submission's
  \<open>startExport\<close> sets the phase resumes on a dialog in phase \<open>Exporting\<close>, rendered with
  all four controls disabled, and runs the whole export.
\<close>

theorem second_export_counterexample:
  "phase (state (example_dialog
       \<lparr> state := merge_IState exporting_update (state example_dialog) \<rparr>)) = Exporting
   \<and> submit_disabled (render (example_dialog
       \<lparr> state := merge_IState exporting_update (state example_dialog) \<rparr>))
   \<and> cancel_disabled (render (example_dialog
       \<lparr> state := merge_IState exporting_update (state example_dialog) \<rparr>))
   \<and> PassphraseField_disabled (render (example_dialog
       \<lparr> state := merge_IState exporting_update (state example_dialog) \<rparr>))
   \<and> PassphraseConfirmField_disabled (render (example_dialog
       \<lparr> state := merge_IState exporting_update (state example_dialog) \<rparr>))
   \<and> snd (onPassphraseFormSubmit example_env
            (\<lambda>d. d\<lparr> state := merge_IState exporting_update (state d) \<rparr>) (\<lambda>d. d) example_dialog) =
       [Call PreventDefault,
        Call (Validate 1 \<lparr> allowEmpty = Some False, focused = None \<rparr>),
        Call (Validate 2 \<lparr> allowEmpty = Some False, focused = None \<rparr>),
        SetState exporting_update,
        Call ExportRoomKeys,
        Call (EncryptMegolmKeyFile ''[]'' ''horse''),
        Call (SaveAs \<lparr> blobParts = [''horse[]''], blob_type = ''text/plain;charset=us-ascii'' \<rparr>
                ''element-keys.txt''),
        Call (OnFinished True)]"
  by (simp add: render_def merge_IState_def exporting_update_def onPassphraseFormSubmit_def
        verifyFieldsBeforeSubmit_def startExport_eq export_chain_eq Let_def)


section \<open>Properties of SecureBackupPanel\<close>

lemma fetch_backup_status_eq:
  "fetch_backup_status (Inr cli) =
     (case getKeyBackupVersion cli of
        Inl e \<Rightarrow> (Inl e, [Call GetKeyBackupVersion])
      | Inr None \<Rightarrow> (Inr (None, None), [Call GetKeyBackupVersion])
      | Inr (Some b) \<Rightarrow>
          (case isKeyBackupTrusted cli b of
             Inl e \<Rightarrow> (Inl e, [Call GetKeyBackupVersion, Call (IsKeyBackupTrusted b)])
           | Inr v \<Rightarrow>
               (Inr (Some b, Some v), [Call GetKeyBackupVersion, Call (IsKeyBackupTrusted b)])))"
  by (simp add: fetch_backup_status_def Promise_then_def client_call_def Let_def
           split: sum.splits option.splits)

lemma fetch_backup_status_no_client: "fetch_backup_status (Inl e) = (Inl e, [])"
  by (simp add: fetch_backup_status_def Promise_then_def client_call_def)

lemma setStates_fetch: "setStates (snd (fetch_backup_status safeGet)) = []"
  by (cases safeGet)
     (simp_all add: fetch_backup_status_eq fetch_backup_status_no_client
        split: sum.splits option.splits)

lemma setStates_diagnostics: "setStates (snd (diagnostics cli crypto)) = []"
  by (simp add: diagnostics_def Promise_then_def Let_def split: sum.splits)

lemma backupSigStatus_merge:
  "backupSigStatus (merge_panel u s) =
     (case set_backupSigStatus u of None \<Rightarrow> backupSigStatus s | Some v \<Rightarrow> v)"
  by (simp add: merge_panel_def)

text \<open>
  The diagnostics that \<open>loadBackupStatus\<close> starts without awaiting them never touch
  \<open>backupSigStatus\<close>, whenever their \<open>setState\<close> happens.
\<close>

lemma diagnostics_keep_backupSigStatus:
  "fst (diagnostics cli crypto) = Inr u \<Longrightarrow> set_backupSigStatus u = None"
  by (auto simp: diagnostics_def Promise_then_def Let_def no_update_def split: sum.splits)

lemma getUpdatedDiagnostics_keeps_backupSigStatus:
  "backupSigStatus (state (fst (snd (getUpdatedDiagnostics safeGet (\<lambda>p. p) this))))
     = backupSigStatus (state this)"
  by (auto simp: getUpdatedDiagnostics_def Let_def backupSigStatus_merge
        diagnostics_keep_backupSigStatus split: sum.splits option.splits)

lemma loadBackupStatus_no_delete:
  "Call (DeleteKeyBackupVersion v) \<notin> set (snd (loadBackupStatus safeGet later this))"
  by (cases safeGet)
     (auto simp: loadBackupStatus_def Let_def fetch_backup_status_eq fetch_backup_status_no_client
           split: sum.splits option.splits)

text \<open>
  C5, as amended. Whenever \<open>loadBackupStatus\<close> runs and the panel has not been unmounted
  by the time the SDK's calls have resolved, the resulting \<open>backupSigStatus\<close> is the value
  that \<open>isKeyBackupTrusted\<close> resolved with for the backup that \<open>getKeyBackupVersion\<close>
  resolved with, and \<open>null\<close> when \<open>getKeyBackupVersion\<close> resolved with no backup (and
  \<open>isKeyBackupTrusted\<close> is then not called). The panel makes these two calls and no
  verdict of its own. When the panel has been unmounted by then, the one \<open>setState\<close> of
  the run is the synchronous \<open>loading: true\<close> at entry: nothing is set after the calls,
  and \<open>backupSigStatus\<close> is not set at all.
\<close>

theorem loadBackupStatus_sets_sdk_verdict:
  "(\<not> unmounted (later (this\<lparr> state := merge_panel loading_true (state this) \<rparr>))
      \<and> getKeyBackupVersion cli = Inr None
     \<longrightarrow> backupSigStatus (state (fst (loadBackupStatus (Inr cli) later this))) = None
       \<and> calls (snd (loadBackupStatus (Inr cli) later this))
           = [GetUpdatedDiagnostics, GetKeyBackupVersion])
   \<and> (\<not> unmounted (later (this\<lparr> state := merge_panel loading_true (state this) \<rparr>))
      \<and> getKeyBackupVersion cli = Inr (Some b) \<and> isKeyBackupTrusted cli b = Inr v
     \<longrightarrow> backupSigStatus (state (fst (loadBackupStatus (Inr cli) later this))) = Some v
       \<and> calls (snd (loadBackupStatus (Inr cli) later this))
           = [GetUpdatedDiagnostics, GetKeyBackupVersion, IsKeyBackupTrusted b])
   \<and> (unmounted (later (this\<lparr> state := merge_panel loading_true (state this) \<rparr>))
     \<longrightarrow> setStates (snd (loadBackupStatus (Inr cli) later this)) = [loading_true]
       \<and> set_backupSigStatus loading_true = None
       \<and> backupSigStatus (merge_panel loading_true (state this)) = backupSigStatus (state this)
       \<and> fst (loadBackupStatus (Inr cli) later this)
           = later (this\<lparr> state := merge_panel loading_true (state this) \<rparr>))"
proof (intro conjI impI)
  assume "\<not> unmounted (later (this\<lparr> state := merge_panel loading_true (state this) \<rparr>))
      \<and> getKeyBackupVersion cli = Inr None"
  then show "backupSigStatus (state (fst (loadBackupStatus (Inr cli) later this))) = None"
    and "calls (snd (loadBackupStatus (Inr cli) later this))
           = [GetUpdatedDiagnostics, GetKeyBackupVersion]"
    by (simp_all add: loadBackupStatus_def fetch_backup_status_eq Let_def backupSigStatus_merge
          no_update_def calls_append)
next
  assume "\<not> unmounted (later (this\<lparr> state := merge_panel loading_true (state this) \<rparr>))
      \<and> getKeyBackupVersion cli = Inr (Some b) \<and> isKeyBackupTrusted cli b = Inr v"
  then show "backupSigStatus (state (fst (loadBackupStatus (Inr cli) later this))) = Some v"
    and "calls (snd (loadBackupStatus (Inr cli) later this))
           = [GetUpdatedDiagnostics, GetKeyBackupVersion, IsKeyBackupTrusted b]"
    by (simp_all add: loadBackupStatus_def fetch_backup_status_eq Let_def backupSigStatus_merge
          no_update_def calls_append)
next
  show "set_backupSigStatus loading_true = None"
    by (simp add: loading_true_def no_update_def)
next
  show "backupSigStatus (merge_panel loading_true (state this)) = backupSigStatus (state this)"
    by (simp add: backupSigStatus_merge loading_true_def no_update_def)
next
  assume "unmounted (later (this\<lparr> state := merge_panel loading_true (state this) \<rparr>))"
  then show "setStates (snd (loadBackupStatus (Inr cli) later this)) = [loading_true]"
    and "fst (loadBackupStatus (Inr cli) later this)
           = later (this\<lparr> state := merge_panel loading_true (state this) \<rparr>)"
    by (simp_all add: loadBackupStatus_def Let_def setStates_append setStates_fetch
          split: sum.splits prod.splits)
qed

theorem loadBackupStatus_sets_sdk_verdict_witness:
  "getKeyBackupVersion example_client = Inr (Some example_backup)
   \<and> isKeyBackupTrusted example_client example_backup = Inr True
   \<and> backupSigStatus (state (fst (loadBackupStatus (Inr example_client) (\<lambda>p. p) example_panel)))
       = Some True
   \<and> backupSigStatus (state (fst (loadBackupStatus
         (Inr (example_client \<lparr> getKeyBackupVersion := Inr None \<rparr>)) (\<lambda>p. p)
         (example_panel \<lparr> state := (state example_panel) \<lparr> backupSigStatus := Some False \<rparr> \<rparr>))))
       = None"
  using loadBackupStatus_sets_sdk_verdict
    [of "\<lambda>p. p" example_panel example_client example_backup True]
    loadBackupStatus_sets_sdk_verdict
    [of "\<lambda>p. p" "example_panel \<lparr> state := (state example_panel) \<lparr> backupSigStatus := Some False \<rparr> \<rparr>"
        "example_client \<lparr> getKeyBackupVersion := Inr None \<rparr>" example_backup True]
  by simp

text \<open>
  The claim as it was stated, for every run, fails where the panel is unmounted while
  the SDK is awaited: the guard \<open>if (this.unmounted) return\<close> skips \<open>setState\<close>, and
  \<open>backupSigStatus\<close> stays what it was, here an earlier verdict \<open>false\<close>, although
  \<open>getKeyBackupVersion\<close> returned a backup and \<open>isKeyBackupTrusted\<close> the verdict \<open>true\<close>.
\<close>

theorem loadBackupStatus_counterexample:
  "getKeyBackupVersion example_client = Inr (Some example_backup)
   \<and> isKeyBackupTrusted example_client example_backup = Inr True
   \<and> backupSigStatus
       (state (fst (loadBackupStatus (Inr example_client) componentWillUnmount
          (example_panel \<lparr> state := (state example_panel) \<lparr> backupSigStatus := Some False \<rparr> \<rparr>))))
       = Some False"
  by (simp add: loadBackupStatus_def fetch_backup_status_eq componentWillUnmount_def
        merge_panel_def loading_true_def no_update_def Let_def)

text \<open>
  C7. \<open>deleteBackup\<close> itself only opens the confirmation \<open>QuestionDialog\<close>, which is thus
  always the first effect. \<open>deleteKeyBackupVersion\<close> is called only when the dialog
  finishes with a confirming answer, and then with the version of the backup info in
  the panel's state; when that call resolves, the status is reloaded
  (\<open>loadBackupStatus\<close>). When the user declines, the callback does nothing: no deletion,
  no \<open>setState\<close>, the panel as it was.
\<close>

theorem deleteBackup_asks_before_deleting:
  "deleteBackup tr this = (this, [Call (CreateQuestionDialog (delete_question tr))])
   \<and> hd (snd (snd (deleteBackup_answered tr safeGet answering deleting reloading proceed this)))
        = Call (CreateQuestionDialog (delete_question tr))
   \<and> (Call (DeleteKeyBackupVersion v)
          \<in> set (snd (snd (deleteBackup_answered tr safeGet answering deleting reloading proceed this)))
        \<longrightarrow> proceed = Some True
          \<and> (\<exists>info. backupInfo (state (answering this)) = Some info \<and> v = version info))
   \<and> (proceed = Some True \<and> safeGet = Inr cli \<and> backupInfo (state (answering this)) = Some info
        \<longrightarrow> snd (snd (deleteBackup_answered tr safeGet answering deleting reloading proceed this))
            = [Call (CreateQuestionDialog (delete_question tr)), SetState loading_true,
               Call (DeleteKeyBackupVersion (version info))]
              @ (case deleteKeyBackupVersion cli (version info) of
                   Inl e \<Rightarrow> []
                 | Inr u \<Rightarrow>
                     snd (loadBackupStatus safeGet reloading
                            (deleting ((answering this)
                               \<lparr> state := merge_panel loading_true (state (answering this)) \<rparr>)))))
   \<and> (proceed \<noteq> Some True
        \<longrightarrow> deleteBackup_onFinished safeGet deleting reloading proceed this = (Inr (), this, [])
          \<and> deleteBackup_answered tr safeGet answering deleting reloading proceed this
              = (Inr (), answering this, [Call (CreateQuestionDialog (delete_question tr))]))"
proof (intro conjI impI)
  show "deleteBackup tr this = (this, [Call (CreateQuestionDialog (delete_question tr))])"
    by (simp add: deleteBackup_def)
next
  show "hd (snd (snd (deleteBackup_answered tr safeGet answering deleting reloading proceed this)))
        = Call (CreateQuestionDialog (delete_question tr))"
    by (simp add: deleteBackup_answered_def deleteBackup_def split: prod.splits)
next
  assume a: "Call (DeleteKeyBackupVersion v)
          \<in> set (snd (snd (deleteBackup_answered tr safeGet answering deleting reloading proceed this)))"
  then show "proceed = Some True"
    by (auto simp: deleteBackup_answered_def deleteBackup_def deleteBackup_onFinished_def
             split: prod.splits if_splits)
  from a show "\<exists>info. backupInfo (state (answering this)) = Some info \<and> v = version info"
    using loadBackupStatus_no_delete [of v safeGet reloading]
    by (auto simp: deleteBackup_answered_def deleteBackup_def deleteBackup_onFinished_def Let_def
             case_prod_unfold split: if_splits sum.splits option.splits)
next
  assume "proceed = Some True \<and> safeGet = Inr cli \<and> backupInfo (state (answering this)) = Some info"
  then show "snd (snd (deleteBackup_answered tr safeGet answering deleting reloading proceed this))
            = [Call (CreateQuestionDialog (delete_question tr)), SetState loading_true,
               Call (DeleteKeyBackupVersion (version info))]
              @ (case deleteKeyBackupVersion cli (version info) of
                   Inl e \<Rightarrow> []
                 | Inr u \<Rightarrow>
                     snd (loadBackupStatus safeGet reloading
                            (deleting ((answering this)
                               \<lparr> state := merge_panel loading_true (state (answering this)) \<rparr>))))"
    by (simp add: deleteBackup_answered_def deleteBackup_def deleteBackup_onFinished_def Let_def
             split: prod.splits sum.splits)
next
  assume "proceed \<noteq> Some True"
  then show "deleteBackup_onFinished safeGet deleting reloading proceed this = (Inr (), this, [])"
    and "deleteBackup_answered tr safeGet answering deleting reloading proceed this
              = (Inr (), answering this, [Call (CreateQuestionDialog (delete_question tr))])"
    by (simp_all add: deleteBackup_answered_def deleteBackup_def deleteBackup_onFinished_def)
qed

theorem deleteBackup_asks_before_deleting_witness:
  "calls (snd (snd (deleteBackup_answered (\<lambda>s. s) (Inr example_client) (\<lambda>p. p) (\<lambda>p. p) (\<lambda>p. p)
                      (Some True) example_panel)))
     = [CreateQuestionDialog (delete_question (\<lambda>s. s)),
        DeleteKeyBackupVersion (Some ''7''),
        GetUpdatedDiagnostics, GetKeyBackupVersion, IsKeyBackupTrusted example_backup]
   \<and> deleteBackup_answered (\<lambda>s. s) (Inr example_client) (\<lambda>p. p) (\<lambda>p. p) (\<lambda>p. p)
        (Some False) example_panel
     = (Inr (), example_panel, [Call (CreateQuestionDialog (delete_question (\<lambda>s. s)))])"
  using deleteBackup_asks_before_deleting
    [of "\<lambda>s. s" example_panel "Inr example_client" "\<lambda>p. p" "\<lambda>p. p" "\<lambda>p. p" "Some True"
        "Some ''7''" example_client example_backup]
    deleteBackup_asks_before_deleting
    [of "\<lambda>s. s" example_panel "Inr example_client" "\<lambda>p. p" "\<lambda>p. p" "\<lambda>p. p" "Some False"
        "Some ''7''" example_client example_backup]
  by (simp add: loadBackupStatus_def fetch_backup_status_eq Let_def)

section \<open>Unmounted components\<close>

lemma checkKeyBackupStatus_failed_unmounted:
  "unmounted (later this) \<Longrightarrow> fst (client_call safeGet checkKeyBackup CheckKeyBackup) = Inl e \<Longrightarrow>
     setStates (snd (checkKeyBackupStatus safeGet later this)) = []
     \<and> fst (checkKeyBackupStatus safeGet later this) = later this"
  by (auto simp add: checkKeyBackupStatus_def Let_def setStates_append client_call_def
        split: sum.splits)

text \<open>
  C10. Once \<open>componentWillUnmount\<close> has set the flag, the guarded continuations set no
  state. In the dialog, the handler of a failed export only logs the error, so that
  the one \<open>setState\<close> of \<open>startExport\<close> is the synchronous one that precedes the chain.
  In the panel, \<open>loadBackupStatus\<close> that resumes unmounted has set nothing but its
  synchronous \<open>loading: true\<close>; \<open>getUpdatedDiagnostics\<close> that resumes unmounted sets
  nothing; and \<open>checkKeyBackupStatus\<close> whose \<open>checkKeyBackup\<close> fails (or has no client to
  call) sets nothing when it resumes unmounted.
\<close>

theorem unmounted_continuations_set_no_state:
  "unmounted (componentWillUnmount this)
   \<and> (unmounted dialog
        \<longrightarrow> export_failed env e dialog
            = (dialog, [Call (LoggerError ''Error exporting e2e keys:'' e)]))
   \<and> (unmounted (exporting (dialog\<lparr> state := merge_IState exporting_update (state dialog) \<rparr>))
        \<longrightarrow> setStates (snd (startExport env exporting passphrase dialog)) = [exporting_update]
          \<and> fst (startExport env exporting passphrase dialog)
              = exporting (dialog\<lparr> state := merge_IState exporting_update (state dialog) \<rparr>))
   \<and> (unmounted (later (panel\<lparr> state := merge_panel loading_true (state panel) \<rparr>))
        \<longrightarrow> setStates (snd (loadBackupStatus safeGet later panel)) = [loading_true]
          \<and> fst (loadBackupStatus safeGet later panel)
              = later (panel\<lparr> state := merge_panel loading_true (state panel) \<rparr>))
   \<and> (unmounted (later panel)
        \<longrightarrow> setStates (snd (snd (getUpdatedDiagnostics safeGet later panel))) = []
          \<and> fst (snd (getUpdatedDiagnostics safeGet later panel)) \<in> {panel, later panel})
   \<and> (unmounted (later panel) \<and> fst (client_call safeGet checkKeyBackup CheckKeyBackup) = Inl e'
        \<longrightarrow> setStates (snd (checkKeyBackupStatus safeGet later panel)) = []
          \<and> fst (checkKeyBackupStatus safeGet later panel) = later panel)"
proof (intro conjI impI)
  show "unmounted (componentWillUnmount this)"
    by (simp add: componentWillUnmount_def)
next
  assume "unmounted dialog"
  then show "export_failed env e dialog
            = (dialog, [Call (LoggerError ''Error exporting e2e keys:'' e)])"
    by (rule export_failed_unmounted)
next
  assume "unmounted (exporting (dialog\<lparr> state := merge_IState exporting_update (state dialog) \<rparr>))"
  then show "setStates (snd (startExport env exporting passphrase dialog)) = [exporting_update]"
    and "fst (startExport env exporting passphrase dialog)
              = exporting (dialog\<lparr> state := merge_IState exporting_update (state dialog) \<rparr>)"
    by (simp_all add: startExport_eq export_failed_unmounted setStates_append setStates_chain
          split: sum.splits)
next
  assume "unmounted (later (panel\<lparr> state := merge_panel loading_true (state panel) \<rparr>))"
  then show "setStates (snd (loadBackupStatus safeGet later panel)) = [loading_true]"
    and "fst (loadBackupStatus safeGet later panel)
              = later (panel\<lparr> state := merge_panel loading_true (state panel) \<rparr>)"
    by (simp_all add: loadBackupStatus_def Let_def setStates_append setStates_fetch
          split: sum.splits prod.splits)
next
  assume "unmounted (later panel)"
  then show "setStates (snd (snd (getUpdatedDiagnostics safeGet later panel))) = []"
    and "fst (snd (getUpdatedDiagnostics safeGet later panel)) \<in> {panel, later panel}"
    by (simp_all add: getUpdatedDiagnostics_def Let_def setStates_diagnostics
          split: sum.splits option.splits)
next
  assume a: "unmounted (later panel) \<and> fst (client_call safeGet checkKeyBackup CheckKeyBackup) = Inl e'"
  then show "setStates (snd (checkKeyBackupStatus safeGet later panel)) = []"
    and "fst (checkKeyBackupStatus safeGet later panel) = later panel"
    using checkKeyBackupStatus_failed_unmounted [of later panel safeGet e'] by simp_all
qed

theorem unmounted_continuations_set_no_state_witness:
  "startExport (example_env \<lparr> exportRoomKeys := Inl (JsError ''offline'' None) \<rparr>)
       componentWillUnmount ''horse'' example_dialog
     = (example_dialog \<lparr> state := \<lparr> phase = Exporting, errStr = None, passphrase1 = ''horse'',
                                     passphrase2 = ''horse'' \<rparr>,
                         unmounted := True \<rparr>,
        [SetState exporting_update, Call ExportRoomKeys,
         Call (LoggerError ''Error exporting e2e keys:'' (JsError ''offline'' None))])
   \<and> setStates (snd (loadBackupStatus (Inr example_client) componentWillUnmount example_panel))
       = [loading_true]
   \<and> snd (getUpdatedDiagnostics (Inr example_client) componentWillUnmount example_panel)
       = (componentWillUnmount example_panel,
          [Call IsKeyBackupKeyStored, Call GetSessionBackupPrivateKey,
           Call SecretStorageHasKey, Call IsSecretStorageReady])
   \<and> checkKeyBackupStatus (Inr example_client) componentWillUnmount example_panel
       = (componentWillUnmount example_panel,
          [Call GetUpdatedDiagnostics, Call CheckKeyBackup,
           Call (LoggerLog ''Unable to fetch check backup status'' (JsError ''M_UNKNOWN'' None))])"
  using unmounted_continuations_set_no_state
    [of example_panel example_dialog
        "example_env \<lparr> exportRoomKeys := Inl (JsError ''offline'' None) \<rparr>"
        "JsError ''offline'' None" componentWillUnmount "''horse''" componentWillUnmount
        example_panel "Inr example_client" "JsError ''M_UNKNOWN'' None"]
  by (simp add: componentWillUnmount_def startExport_eq export_chain_eq export_failed_def
        merge_IState_def exporting_update_def getUpdatedDiagnostics_def diagnostics_def
        Promise_then_def checkKeyBackupStatus_def client_call_def Let_def)


end
